theory Spec2Isabelle
  imports Complex_Main "HOL-Library.Word" "HOL-Library.Log_Nat"
begin

unbundle bit_operations_syntax

section \<open>Data model\<close>

text \<open>
  The two modules \<^verbatim>\<open>src/api/thumbnails.ts\<close> and \<^verbatim>\<open>src/api/videos.ts\<close> hold three
  request handlers. They are \<^verbatim>\<open>async\<close> functions that throw on failure, read a request,
  and act on a database, the local disk, a remote object store and two external programs.
  The model makes all of that explicit: a handler takes the configuration, the behaviour of
  its surroundings, the request and the state of the world, and returns either the error it
  throws or its response, together with the world it leaves behind.
\<close>

type_synonym bytes = "8 word list"

text \<open>
  The errors the handlers throw. \<open>BadRequestError\<close>, \<open>NotFoundError\<close> and
  \<open>UserForbiddenError\<close> are imported from \<^verbatim>\<open>./errors\<close>; \<open>Error\<close> is JavaScript's own
  (\<^verbatim>\<open>throw new Error(err)\<close>). \<open>AuthError\<close> stands for what the authentication
  collaborators throw.
\<close>

datatype error =
    BadRequestError string
  | NotFoundError string
  | UserForbiddenError string
  | AuthError string
  | Error string

text \<open>The fields of a video record that the handlers read or assign.\<close>

record video =
  video_id :: string
  userID :: string
  thumbnailURL :: "string option"
  videoURL :: "string option"

text \<open>
  A \<^verbatim>\<open>File\<close> of the form data, seen through the three accessors the handlers use:
  \<^verbatim>\<open>.size\<close>, \<^verbatim>\<open>.type\<close> and \<^verbatim>\<open>.arrayBuffer()\<close>.
\<close>

record upload =
  file_size :: nat
  file_type :: string
  file_bytes :: bytes

datatype form_entry = FileEntry upload | StringEntry string

text \<open>
  A request: the route parameter (\<open>None\<close> when absent), the headers, and what
  \<^verbatim>\<open>await req.formData()\<close> gives: the fields of the form, or the message of the
  \<^verbatim>\<open>TypeError\<close> it rejects with when the body does not parse.
\<close>

record request =
  params_videoId :: "string option"
  headers :: "(string \<times> string) list"
  formData :: "string + (string \<rightharpoonup> form_entry)"

record ApiConfig =
  jwtSecret :: string
  assetsRoot :: string
  port :: string
  s3CfDistribution :: string

text \<open>The type \<^verbatim>\<open>Thumbnail\<close> of \<^verbatim>\<open>thumbnails.ts\<close>.\<close>

record Thumbnail =
  thumb_data :: bytes
  thumb_mediaType :: string

text \<open>One entry of \<^verbatim>\<open>output.streams\<close>; a field the JSON lacks is \<open>None\<close> (\<^verbatim>\<open>undefined\<close>).\<close>

record stream =
  width :: "int option"
  height :: "int option"

text \<open>
  A finished run of \<^verbatim>\<open>ffprobe\<close>: the exit code, the text on standard error, and
  \<^verbatim>\<open>JSON.parse\<close> of standard output (the message of its \<^verbatim>\<open>SyntaxError\<close> when it
  throws; \<open>None\<close> for the list when \<^verbatim>\<open>output.streams\<close> is missing).
\<close>

record ffprobe_run =
  probe_exited :: nat
  probe_stderr :: string
  probe_stdout :: "string + stream list option"

text \<open>
  A finished run of \<^verbatim>\<open>ffmpeg\<close>: exit code, standard error, and the file it left at
  its output path.
\<close>

record ffmpeg_run =
  ffmpeg_exited :: nat
  ffmpeg_stderr :: string
  ffmpeg_output :: "bytes option"

text \<open>
  What the handlers call and do not define. \<open>getBearerToken\<close> and \<open>validateJWT\<close> are the
  collaborators of \<^verbatim>\<open>../auth\<close>, taken as parameters. The two \<open>randomBytes\<close> fields are the
  values of \<^verbatim>\<open>randomBytes(32).toString("hex")\<close> and \<^verbatim>\<open>randomBytes(32).toString("base64url")\<close>
  in this request. \<open>path_join\<close> is Node's \<^verbatim>\<open>path.join\<close>. The remaining fields say how the
  surroundings answer: whether a write to a path, a write to an object key or a deletion
  fails (with which message), and what the two programs do, given the disk and the paths
  on their command line.
\<close>

record env =
  getBearerToken :: "(string \<times> string) list \<Rightarrow> error + string"
  validateJWT :: "string \<Rightarrow> string \<Rightarrow> error + string"
  randomBytes_hex :: string
  randomBytes_base64url :: string
  path_join :: "string \<Rightarrow> string \<Rightarrow> string"
  write_err :: "string \<Rightarrow> string option"
  s3_write_err :: "string \<Rightarrow> string option"
  delete_err :: "string \<Rightarrow> string option"
  ffprobe :: "(string \<rightharpoonup> bytes) \<Rightarrow> string \<Rightarrow> ffprobe_run"
  ffmpeg :: "(string \<rightharpoonup> bytes) \<Rightarrow> string \<Rightarrow> string \<Rightarrow> ffmpeg_run"

text \<open>Every interaction of a handler with its surroundings, recorded in program order.\<close>

datatype event =
    EvGetBearerToken
  | EvValidateJWT
  | EvConsoleLog
  | EvGetVideo string
  | EvFormData
  | EvArrayBuffer
  | EvBunWrite string
  | EvSpawn string
  | EvS3Write string
  | EvUpdateVideo video
  | EvDelete string

text \<open>
  The state of the world: the database (\<^verbatim>\<open>cfg.db\<close>), the module-level map
  \<^verbatim>\<open>videoThumbnails\<close>, the local disk, the object store (\<^verbatim>\<open>cfg.s3Client\<close>), the writes
  that were started and not awaited, and the trace of events.
\<close>

record world =
  db :: "string \<rightharpoonup> video"
  videoThumbnails :: "string \<rightharpoonup> Thumbnail"
  disk :: "string \<rightharpoonup> bytes"
  s3 :: "string \<rightharpoonup> (bytes \<times> string)"
  pending :: "(string \<times> bytes) list"
  trace :: "event list"

datatype response =
    JSONResponse nat video
  | DataResponse bytes "(string \<times> string) list"

type_synonym 'a result = "(error + 'a) \<times> world"

section \<open>Collaborators and primitives\<close>

definition emit :: "event \<Rightarrow> world \<Rightarrow> world" where
  "emit e w = w\<lparr>trace := trace w @ [e]\<rparr>"

text \<open>
  Modelled from the spec: \<^verbatim>\<open>getVideo(db, id) -> VideoRecord | undefined\<close> of
  \<^verbatim>\<open>../db/videos\<close>, which is not among the sources: the record stored under the identifier.
\<close>

definition getVideo :: "(string \<rightharpoonup> video) \<Rightarrow> string \<Rightarrow> video option" where
  "getVideo d i = d i"

text \<open>
  Modelled from the spec: \<^verbatim>\<open>updateVideo(db, record) -> void\<close> of \<^verbatim>\<open>../db/videos\<close>, which
  is not among the sources: the record is persisted under its identifier.
\<close>

definition updateVideo :: "video \<Rightarrow> world \<Rightarrow> world" where
  "updateVideo v w = emit (EvUpdateVideo v) (w\<lparr>db := (db w)(video_id v \<mapsto> v)\<rparr>)"

text \<open>
  Modelled from the spec: \<^verbatim>\<open>respondWithJSON\<close> of \<^verbatim>\<open>./json\<close>, which is not among the
  sources: a response with the given status and the record as its payload.
\<close>

definition respondWithJSON :: "nat \<Rightarrow> video \<Rightarrow> response" where
  "respondWithJSON code v = JSONResponse code v"

text \<open>\<^verbatim>\<open>await Bun.write(path, data)\<close>: the handler goes on only once the write has succeeded.\<close>

definition Bun_write_await :: "env \<Rightarrow> string \<Rightarrow> bytes \<Rightarrow> world \<Rightarrow> unit result" where
  "Bun_write_await en p d w =
     (case write_err en p of
        Some msg \<Rightarrow> (Inl (Error msg), emit (EvBunWrite p) w)
      | None \<Rightarrow> (Inr (), emit (EvBunWrite p) (w\<lparr>disk := (disk w)(p \<mapsto> d)\<rparr>)))"

text \<open>
  \<^verbatim>\<open>Bun.write(path, data)\<close> with no \<^verbatim>\<open>await\<close>: the write is started and the handler goes
  on at once; it never sees how the write ends.
\<close>

definition Bun_write_start :: "string \<Rightarrow> bytes \<Rightarrow> world \<Rightarrow> world" where
  "Bun_write_start p d w = emit (EvBunWrite p) (w\<lparr>pending := pending w @ [(p, d)]\<rparr>)"

text \<open>
  The writes that were started and not awaited come to their end after the handler has
  returned: one that succeeds puts its bytes on the disk, one that fails is a rejected
  promise that nobody handles.
\<close>

fun settle_writes :: "env \<Rightarrow> (string \<times> bytes) list \<Rightarrow> (string \<rightharpoonup> bytes) \<Rightarrow> (string \<rightharpoonup> bytes)" where
  "settle_writes en [] dk = dk"
| "settle_writes en ((p, d) # ps) dk =
     settle_writes en ps (case write_err en p of None \<Rightarrow> dk(p \<mapsto> d) | Some msg \<Rightarrow> dk)"

definition settle :: "env \<Rightarrow> world \<Rightarrow> world" where
  "settle en w = w\<lparr>disk := settle_writes en (pending w) (disk w), pending := []\<rparr>"

text \<open>\<^verbatim>\<open>String.prototype.split\<close> at a one-character separator.\<close>

fun split_on :: "char \<Rightarrow> string \<Rightarrow> string list" where
  "split_on c [] = [[]]"
| "split_on c (x # xs) =
     (if x = c then [] # split_on c xs
      else (case split_on c xs of [] \<Rightarrow> [[x]] | y # ys \<Rightarrow> (x # y) # ys))"

text \<open>
  \<^verbatim>\<open>mediaType.split("/")[1]\<close> as it appears in a template literal: an index out of range
  reads \<^verbatim>\<open>undefined\<close>, which the template prints as that word.
\<close>

definition extension_of :: "string \<Rightarrow> string" where
  "extension_of mediaType =
     (case split_on (CHR ''/'') mediaType of a # e # rest \<Rightarrow> e | _ \<Rightarrow> ''undefined'')"

text \<open>
  The two constants named \<^verbatim>\<open>MAX_UPLOAD_SIZE\<close>. JavaScript's \<^verbatim>\<open><<\<close> works on 32-bit
  two's-complement integers.
\<close>

definition MAX_UPLOAD_SIZE_thumbnails :: int where
  "MAX_UPLOAD_SIZE_thumbnails = sint (push_bit 20 (10 :: 32 word))"

definition MAX_UPLOAD_SIZE_videos :: int where
  "MAX_UPLOAD_SIZE_videos = sint (push_bit 30 (1 :: 32 word))"

section \<open>Reading a thumbnail: \<^verbatim>\<open>handlerGetThumbnail\<close>\<close>

definition handlerGetThumbnail :: "ApiConfig \<Rightarrow> request \<Rightarrow> world \<Rightarrow> response result" where
  "handlerGetThumbnail cfg req w =
     (case params_videoId req of
        None \<Rightarrow> (Inl (BadRequestError ''Invalid video ID''), w)
      | Some videoId \<Rightarrow>
          if videoId = [] then (Inl (BadRequestError ''Invalid video ID''), w)
          else
            let w1 = emit (EvGetVideo videoId) w in
            (case getVideo (db w1) videoId of
               None \<Rightarrow> (Inl (NotFoundError ''Couldn't find video''), w1)
             | Some vd \<Rightarrow>
                 (case videoThumbnails w1 videoId of
                    None \<Rightarrow> (Inl (NotFoundError ''Thumbnail not found''), w1)
                  | Some thumbnail \<Rightarrow>
                      (Inr (DataResponse (thumb_data thumbnail)
                              [(''Content-Type'', thumb_mediaType thumbnail),
                               (''Cache-Control'', ''no-store'')]), w1))))"

section \<open>Uploading a thumbnail: \<^verbatim>\<open>handlerUploadThumbnail\<close>\<close>

text \<open>
  Lines 69 to 101 of \<^verbatim>\<open>thumbnails.ts\<close>: what the handler does with a file that has
  passed the checks of size and media type.
\<close>

definition storeThumbnail ::
  "ApiConfig \<Rightarrow> env \<Rightarrow> string \<Rightarrow> string \<Rightarrow> upload \<Rightarrow> world \<Rightarrow> response result" where
  "storeThumbnail cfg en videoId user thumbnail w =
     (let mediaType = file_type thumbnail;
          w1 = emit EvArrayBuffer w;
          data = file_bytes thumbnail;
          w2 = emit (EvGetVideo videoId) w1
      in
      (case getVideo (db w2) videoId of
         None \<Rightarrow> (Inl (NotFoundError ''Couldn't find video''), w2)
       | Some vd \<Rightarrow>
           if userID vd \<noteq> user
           then (Inl (UserForbiddenError ''Editing video not allowed.''), w2)
           else
             let name = randomBytes_base64url en;
                 extension = extension_of mediaType;
                 w3 = Bun_write_start
                        (path_join en (assetsRoot cfg) (name @ ''.'' @ extension)) data w2;
                 vd' = vd\<lparr>thumbnailURL :=
                          Some (''http://localhost:'' @ port cfg @ ''/assets/''
                                @ name @ ''.'' @ extension)\<rparr>;
                 w4 = updateVideo vd' w3
             in (Inr (respondWithJSON 200 vd'), w4)))"

text \<open>Lines 60 to 68 of \<^verbatim>\<open>thumbnails.ts\<close>: the checks of size and media type.\<close>

definition checkThumbnail ::
  "ApiConfig \<Rightarrow> env \<Rightarrow> string \<Rightarrow> string \<Rightarrow> upload \<Rightarrow> world \<Rightarrow> response result" where
  "checkThumbnail cfg en videoId user thumbnail w =
     (if int (file_size thumbnail) > MAX_UPLOAD_SIZE_thumbnails
      then (Inl (BadRequestError ''Thumbnail file size is greater than 10MB''), w)
      else if file_type thumbnail \<notin> set [''image/jpeg'', ''image/png'']
      then (Inl (BadRequestError ''Only JPEG and PNG files allowed!''), w)
      else storeThumbnail cfg en videoId user thumbnail w)"

definition handlerUploadThumbnail ::
  "ApiConfig \<Rightarrow> env \<Rightarrow> request \<Rightarrow> world \<Rightarrow> response result" where
  "handlerUploadThumbnail cfg en req w =
     (case params_videoId req of
        None \<Rightarrow> (Inl (BadRequestError ''Invalid video ID''), w)
      | Some videoId \<Rightarrow>
          if videoId = [] then (Inl (BadRequestError ''Invalid video ID''), w)
          else
            let w1 = emit EvGetBearerToken w in
            (case getBearerToken en (headers req) of
               Inl e \<Rightarrow> (Inl e, w1)
             | Inr token \<Rightarrow>
                 let w2 = emit EvValidateJWT w1 in
                 (case validateJWT en token (jwtSecret cfg) of
                    Inl e \<Rightarrow> (Inl e, w2)
                  | Inr user \<Rightarrow>
                      let w3 = emit EvConsoleLog w2;
                          w4 = emit EvFormData w3
                      in
                      (case formData req of
                         Inl msg \<Rightarrow> (Inl (Error msg), w4)
                       | Inr fd \<Rightarrow>
                           (case fd ''thumbnail'' of
                              Some (FileEntry thumbnail) \<Rightarrow>
                                checkThumbnail cfg en videoId user thumbnail w4
                            | _ \<Rightarrow> (Inl (BadRequestError ''Thumbnail file missing''), w4))))))"

section \<open>JavaScript numbers\<close>

text \<open>
  \<^verbatim>\<open>Math.floor(16 * (height / 9))\<close> is computed in binary64 floating point: the division
  and the multiplication each round their exact result to the nearest number with a 53-bit
  significand, ties to the even significand. The model computes with the exact rational
  values of such numbers. \<open>expo x\<close> is the exponent \<open>e\<close> with \<open>2\<^sup>e \<le> x < 2\<^sup>e\<^sup>+\<^sup>1\<close> of a
  positive \<open>x\<close>, and \<open>fl\<close> is the rounding. The exponent range is not bounded: the model
  is that of binary64 for magnitudes between \<open>2\<^sup>-\<^sup>1\<^sup>0\<^sup>2\<^sup>2\<close> and \<open>2\<^sup>1\<^sup>0\<^sup>2\<^sup>4\<close>, where every value
  computed below from a dimension that \<^verbatim>\<open>ffprobe\<close> can print lies.
\<close>

definition round_even :: "rat \<Rightarrow> int" where
  "round_even x =
     (let f = \<lfloor>x\<rfloor>; d = x - of_int f
      in if d < 1 / 2 then f else if 1 / 2 < d then f + 1 else if even f then f else f + 1)"

definition expo :: "rat \<Rightarrow> int" where
  "expo x =
     (case quotient_of x of (p, q) \<Rightarrow>
        let d = bitlen p - bitlen q in if 2 powi d \<le> x then d else d - 1)"

definition fl :: "rat \<Rightarrow> rat" where
  "fl x =
     (if x = 0 then 0
      else let u = 2 powi (expo \<bar>x\<bar> - 52)
           in sgn x * of_int (round_even (\<bar>x\<bar> / u)) * u)"

text \<open>
  \<^verbatim>\<open>Math.floor(16 * (d / 9))\<close> for a dimension \<open>d\<close> read from the JSON: \<open>None\<close> is
  \<^verbatim>\<open>NaN\<close>, which is what the expression gives for \<^verbatim>\<open>undefined\<close>. An integer of the JSON
  text becomes the nearest binary64 number.
\<close>

fun floor_16_9 :: "int option \<Rightarrow> rat option" where
  "floor_16_9 None = None"
| "floor_16_9 (Some d) = Some (of_int \<lfloor>fl (16 * fl (fl (of_int d) / 9))\<rfloor>)"

text \<open>
  \<^verbatim>\<open>a === b\<close> for a dimension \<open>a\<close> and a number \<open>b\<close>: false when \<open>a\<close> is
  \<^verbatim>\<open>undefined\<close> and when \<open>b\<close> is \<^verbatim>\<open>NaN\<close>.
\<close>

fun strict_eq :: "int option \<Rightarrow> rat option \<Rightarrow> bool" where
  "strict_eq (Some a) (Some b) = (fl (of_int a) = b)"
| "strict_eq a b = False"

section \<open>Uploading a video: \<^verbatim>\<open>handlerUploadVideo\<close>\<close>

text \<open>Lines 114 to 120 of \<^verbatim>\<open>videos.ts\<close>: the classification of the first stream.\<close>

definition aspect :: "int option \<Rightarrow> int option \<Rightarrow> string" where
  "aspect w h =
     (if strict_eq w (floor_16_9 h) then ''landscape''
      else if strict_eq h (floor_16_9 w) then ''portrait''
      else ''other'')"

definition getVideoAspectRatio :: "env \<Rightarrow> string \<Rightarrow> world \<Rightarrow> string result" where
  "getVideoAspectRatio en filePath w =
     (let w1 = emit (EvSpawn ''ffprobe'') w;
          run = ffprobe en (disk w) filePath
      in
      if probe_exited run \<noteq> 0 then (Inl (Error (probe_stderr run)), w1)
      else
        (case probe_stdout run of
           Inl msg \<Rightarrow> (Inl (Error msg), w1)
         | Inr None \<Rightarrow> (Inl (Error ''No video streams found''), w1)
         | Inr (Some []) \<Rightarrow> (Inl (Error ''No video streams found''), w1)
         | Inr (Some (st # rest)) \<Rightarrow> (Inr (aspect (width st) (height st)), w1)))"

text \<open>
  \<^verbatim>\<open>processVideoForFastStart\<close>: the program may leave a file at the output path
  whether it succeeds or not.
\<close>

definition processVideoForFastStart :: "env \<Rightarrow> string \<Rightarrow> world \<Rightarrow> string result" where
  "processVideoForFastStart en inputFilePath w =
     (let outputFilePath = inputFilePath @ ''.processed'';
          w1 = emit (EvSpawn ''ffmpeg'') w;
          run = ffmpeg en (disk w) inputFilePath outputFilePath;
          w2 = (case ffmpeg_output run of
                  None \<Rightarrow> w1
                | Some b \<Rightarrow> w1\<lparr>disk := (disk w1)(outputFilePath \<mapsto> b)\<rparr>)
      in
      if ffmpeg_exited run \<noteq> 0 then (Inl (Error (ffmpeg_stderr run)), w2)
      else (Inr outputFilePath, w2))"

text \<open>
  \<^verbatim>\<open>await s3File.write(Bun.file(path))\<close>: the content of the local file goes to the object
  store under the key, tagged with the media type. A local file that does not exist cannot
  be read.
\<close>

definition S3_write :: "env \<Rightarrow> string \<Rightarrow> string \<Rightarrow> string \<Rightarrow> world \<Rightarrow> unit result" where
  "S3_write en key mediaType p w =
     (case disk w p of
        None \<Rightarrow> (Inl (Error ''ENOENT''), emit (EvS3Write key) w)
      | Some content \<Rightarrow>
          (case s3_write_err en key of
             Some msg \<Rightarrow> (Inl (Error msg), emit (EvS3Write key) w)
           | None \<Rightarrow>
               (Inr (), emit (EvS3Write key) (w\<lparr>s3 := (s3 w)(key \<mapsto> (content, mediaType))\<rparr>))))"

text \<open>\<^verbatim>\<open>await file.delete()\<close>.\<close>

definition Bun_delete :: "env \<Rightarrow> string \<Rightarrow> world \<Rightarrow> unit result" where
  "Bun_delete en p w =
     (case delete_err en p of
        Some msg \<Rightarrow> (Inl (Error msg), emit (EvDelete p) w)
      | None \<Rightarrow> (Inr (), emit (EvDelete p) (w\<lparr>disk := (disk w)(p := None)\<rparr>)))"

text \<open>
  Lines 57 to 78 of \<^verbatim>\<open>videos.ts\<close>: what the handler does with a file that has passed
  the checks of size and media type.
\<close>

definition storeVideo ::
  "ApiConfig \<Rightarrow> env \<Rightarrow> string \<Rightarrow> video \<Rightarrow> upload \<Rightarrow> world \<Rightarrow> response result" where
  "storeVideo cfg en videoId vd upl w =
     (let mediaType = file_type upl;
          extension = extension_of mediaType;
          w1 = emit EvArrayBuffer w;
          data = file_bytes upl;
          filePath = path_join en (assetsRoot cfg) (videoId @ ''.'' @ extension)
      in
      (case Bun_write_await en filePath data w1 of
         (Inl e, w2) \<Rightarrow> (Inl e, w2)
       | (Inr u, w2) \<Rightarrow>
           (case getVideoAspectRatio en filePath w2 of
              (Inl e, w3) \<Rightarrow> (Inl e, w3)
            | (Inr category, w3) \<Rightarrow>
                let name = randomBytes_hex en;
                    key = category @ ''/'' @ name @ ''.'' @ extension
                in
                (case processVideoForFastStart en filePath w3 of
                   (Inl e, w4) \<Rightarrow> (Inl e, w4)
                 | (Inr processesFilePath, w4) \<Rightarrow>
                     (case S3_write en key mediaType processesFilePath w4 of
                        (Inl e, w5) \<Rightarrow> (Inl e, w5)
                      | (Inr u', w5) \<Rightarrow>
                          let vd' = vd\<lparr>videoURL := Some (s3CfDistribution cfg @ ''/'' @ key)\<rparr>;
                              w6 = updateVideo vd' w5
                          in
                          (case Bun_delete en processesFilePath w6 of
                             (Inl e, w7) \<Rightarrow> (Inl e, w7)
                           | (Inr u'', w7) \<Rightarrow> (Inr (respondWithJSON 200 vd'), w7)))))))"

text \<open>Lines 47 to 55 of \<^verbatim>\<open>videos.ts\<close>: the checks of size and media type.\<close>

definition checkVideo ::
  "ApiConfig \<Rightarrow> env \<Rightarrow> string \<Rightarrow> video \<Rightarrow> upload \<Rightarrow> world \<Rightarrow> response result" where
  "checkVideo cfg en videoId vd upl w =
     (if int (file_size upl) > MAX_UPLOAD_SIZE_videos
      then (Inl (BadRequestError ''video file size is greater than 1GB''), w)
      else if file_type upl \<notin> set [''video/mp4'']
      then (Inl (BadRequestError ''Only JPEG and PNG files allowed!''), w)
      else storeVideo cfg en videoId vd upl w)"

definition handlerUploadVideo ::
  "ApiConfig \<Rightarrow> env \<Rightarrow> request \<Rightarrow> world \<Rightarrow> response result" where
  "handlerUploadVideo cfg en req w =
     (case params_videoId req of
        None \<Rightarrow> (Inl (BadRequestError ''Invalid video ID''), w)
      | Some videoId \<Rightarrow>
          if videoId = [] then (Inl (BadRequestError ''Invalid video ID''), w)
          else
            let w1 = emit EvGetBearerToken w in
            (case getBearerToken en (headers req) of
               Inl e \<Rightarrow> (Inl e, w1)
             | Inr token \<Rightarrow>
                 let w2 = emit EvValidateJWT w1 in
                 (case validateJWT en token (jwtSecret cfg) of
                    Inl e \<Rightarrow> (Inl e, w2)
                  | Inr user \<Rightarrow>
                      let w3 = emit (EvGetVideo videoId) w2 in
                      (case getVideo (db w3) videoId of
                         None \<Rightarrow> (Inl (NotFoundError ''Couldn't find video''), w3)
                       | Some vd \<Rightarrow>
                           if userID vd \<noteq> user
                           then (Inl (UserForbiddenError ''Editing video not allowed.''), w3)
                           else
                             let w4 = emit EvFormData w3 in
                             (case formData req of
                                Inl msg \<Rightarrow> (Inl (Error msg), w4)
                              | Inr fd \<Rightarrow>
                                  (case fd ''video'' of
                                     Some (FileEntry upl) \<Rightarrow> checkVideo cfg en videoId vd upl w4
                                   | _ \<Rightarrow> (Inl (BadRequestError ''video file missing''), w4)))))))"

section \<open>Observing a run\<close>

text \<open>The events a handler adds to the trace of the world it starts from.\<close>

definition new_events :: "world \<Rightarrow> world \<Rightarrow> event list" where
  "new_events w w' = drop (length (trace w)) (trace w')"

text \<open>A write to the local disk or to the object store, attempted or done.\<close>

fun is_storage_write :: "event \<Rightarrow> bool" where
  "is_storage_write (EvBunWrite p) = True"
| "is_storage_write (EvS3Write k) = True"
| "is_storage_write e = False"

text \<open>The start of an external program.\<close>

fun is_process :: "event \<Rightarrow> bool" where
  "is_process (EvSpawn prog) = True"
| "is_process e = False"

text \<open>An access to the submitted form and its file.\<close>

fun is_file_access :: "event \<Rightarrow> bool" where
  "is_file_access EvFormData = True"
| "is_file_access EvArrayBuffer = True"
| "is_file_access e = False"

text \<open>
  A run from \<open>w\<close> to \<open>w'\<close> that neither attempted nor made a write to the disk or to the
  object store.
\<close>

definition no_storage_write :: "world \<Rightarrow> world \<Rightarrow> bool" where
  "no_storage_write w w' \<longleftrightarrow>
     disk w' = disk w \<and> s3 w' = s3 w \<and> pending w' = pending w
     \<and> filter is_storage_write (new_events w w') = []"

text \<open>A run from \<open>w\<close> to \<open>w'\<close> that started no external program.\<close>

definition no_process :: "world \<Rightarrow> world \<Rightarrow> bool" where
  "no_process w w' \<longleftrightarrow> filter is_process (new_events w w') = []"

section \<open>A sample installation\<close>

text \<open>
  A configuration, collaborators and an initial world on which the handlers can be run:
  one video \<open>v1\<close> owned by \<open>alice\<close>, bearer tokens that name their user, programs that
  succeed, and storage that accepts every write.
\<close>

definition demo_cfg :: ApiConfig where
  "demo_cfg = \<lparr>jwtSecret = ''secret'', assetsRoot = ''assets'', port = ''8091'',
                s3CfDistribution = ''https://cdn.example''\<rparr>"

definition demo_env :: env where
  "demo_env =
     \<lparr>getBearerToken =
        (\<lambda>h. case map_of h ''Authorization'' of
                None \<Rightarrow> Inl (AuthError ''Malformed authorization header'')
              | Some v \<Rightarrow> Inr (drop 7 v)),
      validateJWT =
        (\<lambda>token secret.
           if secret = ''secret'' \<and> token \<in> set [''alice'', ''mallory'']
           then Inr token else Inl (AuthError ''Invalid token'')),
      randomBytes_hex = ''c0ffee'',
      randomBytes_base64url = ''q83vEg'',
      path_join = (\<lambda>a b. a @ ''/'' @ b),
      write_err = (\<lambda>p. None),
      s3_write_err = (\<lambda>k. None),
      delete_err = (\<lambda>p. None),
      ffprobe =
        (\<lambda>dk p. \<lparr>probe_exited = 0, probe_stderr = [],
                   probe_stdout = Inr (Some [\<lparr>width = Some 1920, height = Some 1080\<rparr>])\<rparr>),
      ffmpeg =
        (\<lambda>dk i out. \<lparr>ffmpeg_exited = 0, ffmpeg_stderr = [], ffmpeg_output = dk i\<rparr>)\<rparr>"

definition demo_video :: video where
  "demo_video = \<lparr>video_id = ''v1'', userID = ''alice'', thumbnailURL = None, videoURL = None\<rparr>"

definition demo_world :: world where
  "demo_world =
     \<lparr>db = [''v1'' \<mapsto> demo_video], videoThumbnails = Map.empty, disk = Map.empty,
      s3 = Map.empty, pending = [], trace = []\<rparr>"

definition demo_request :: "string option \<Rightarrow> string \<Rightarrow> (string \<rightharpoonup> form_entry) \<Rightarrow> request" where
  "demo_request videoId user fd =
     \<lparr>params_videoId = videoId, headers = [(''Authorization'', ''Bearer '' @ user)],
      formData = Inr fd\<rparr>"

definition demo_jpeg :: upload where
  "demo_jpeg = \<lparr>file_size = 4, file_type = ''image/jpeg'', file_bytes = [255, 216, 255, 224]\<rparr>"

definition demo_mp4 :: upload where
  "demo_mp4 = \<lparr>file_size = 8, file_type = ''video/mp4'',
                file_bytes = [0, 0, 0, 24, 102, 116, 121, 112]\<rparr>"

text \<open>
  The sample surroundings with an \<^verbatim>\<open>ffprobe\<close> that reports two streams: the first with
  the given width and height, the second 640 by 360.
\<close>

definition demo_probe :: "int \<Rightarrow> int \<Rightarrow> env" where
  "demo_probe w h =
     demo_env\<lparr>ffprobe :=
       (\<lambda>dk p. \<lparr>probe_exited = 0, probe_stderr = [],
                  probe_stdout = Inr (Some [\<lparr>width = Some w, height = Some h\<rparr>,
                                            \<lparr>width = Some 640, height = Some 360\<rparr>])\<rparr>)\<rparr>"

text \<open>A form that carries a thumbnail and a video.\<close>

definition demo_form :: "upload \<Rightarrow> upload \<Rightarrow> (string \<rightharpoonup> form_entry)" where
  "demo_form t v = [''thumbnail'' \<mapsto> FileEntry t, ''video'' \<mapsto> FileEntry v]"

section \<open>Basic facts\<close>

lemma max_upload_sizes:
  "MAX_UPLOAD_SIZE_thumbnails = 10485760" "MAX_UPLOAD_SIZE_videos = 1073741824"
  by (simp_all add: MAX_UPLOAD_SIZE_thumbnails_def MAX_UPLOAD_SIZE_videos_def)

lemmas thumbnail_defs =
  handlerUploadThumbnail_def checkThumbnail_def storeThumbnail_def Bun_write_start_def
  updateVideo_def getVideo_def respondWithJSON_def emit_def Let_def

lemmas video_defs =
  handlerUploadVideo_def checkVideo_def storeVideo_def getVideoAspectRatio_def
  processVideoForFastStart_def S3_write_def Bun_delete_def Bun_write_await_def
  updateVideo_def getVideo_def respondWithJSON_def emit_def Let_def

lemmas observe_defs = no_storage_write_def no_process_def new_events_def

lemmas demo_defs =
  demo_cfg_def demo_env_def demo_video_def demo_world_def demo_request_def demo_jpeg_def
  demo_mp4_def demo_form_def

lemma storeVideo_not_bad_request:
  "fst (storeVideo cfg en videoId vd g w) \<noteq> Inl (BadRequestError m)"
  by (auto simp add: storeVideo_def getVideoAspectRatio_def
        processVideoForFastStart_def S3_write_def Bun_delete_def Bun_write_await_def
        Let_def split: option.splits sum.splits list.splits prod.splits)


lemma settle_writes_last:
  assumes "write_err en p = None"
  shows "settle_writes en (ps @ [(p, d)]) dk p = Some d"
  using assms by (induction ps arbitrary: dk) auto

lemma extension_of_jpeg: "extension_of ''image/jpeg'' = ''jpeg''"
  by (simp add: extension_of_def)

lemma getThumbnail_keeps_map:
  "videoThumbnails (snd (handlerGetThumbnail cfg req w)) = videoThumbnails w"
  by (simp add: handlerGetThumbnail_def getVideo_def emit_def Let_def split: option.splits)

lemma storeThumbnail_keeps_map:
  "videoThumbnails (snd (storeThumbnail cfg en videoId user t w)) = videoThumbnails w"
  by (simp add: storeThumbnail_def Bun_write_start_def updateVideo_def getVideo_def emit_def
      Let_def split: option.splits)

lemma uploadThumbnail_keeps_map:
  "videoThumbnails (snd (handlerUploadThumbnail cfg en req w)) = videoThumbnails w"
  by (simp add: handlerUploadThumbnail_def checkThumbnail_def storeThumbnail_keeps_map
      emit_def Let_def split: option.splits sum.splits form_entry.splits)

lemma storeVideo_keeps_map:
  "videoThumbnails (snd (storeVideo cfg en videoId vd g w)) = videoThumbnails w"
  by (simp add: storeVideo_def getVideoAspectRatio_def processVideoForFastStart_def
      S3_write_def Bun_delete_def Bun_write_await_def updateVideo_def emit_def Let_def
      split: option.splits sum.splits list.splits prod.splits)

lemma uploadVideo_keeps_map:
  "videoThumbnails (snd (handlerUploadVideo cfg en req w)) = videoThumbnails w"
  by (simp add: handlerUploadVideo_def checkVideo_def storeVideo_keeps_map getVideo_def
      emit_def Let_def split: option.splits sum.splits form_entry.splits)


lemma successful_thumbnail_upload:
  assumes "handlerUploadThumbnail cfg en req w = (Inr resp, w')"
    and "params_videoId req = Some v"
    and "formData req = Inr fd" and "fd ''thumbnail'' = Some (FileEntry f)"
  shows "\<exists>vd. db w v = Some vd \<and> v \<noteq> []
           \<and> resp = JSONResponse 200
                (vd\<lparr>thumbnailURL := Some (''http://localhost:'' @ port cfg @ ''/assets/''
                       @ randomBytes_base64url en @ ''.'' @ extension_of (file_type f))\<rparr>)
           \<and> db w' = (db w)(video_id vd \<mapsto>
                vd\<lparr>thumbnailURL := Some (''http://localhost:'' @ port cfg @ ''/assets/''
                       @ randomBytes_base64url en @ ''.'' @ extension_of (file_type f))\<rparr>)
           \<and> pending w' = pending w @
                [(path_join en (assetsRoot cfg)
                    (randomBytes_base64url en @ ''.'' @ extension_of (file_type f)),
                  file_bytes f)]
           \<and> disk w' = disk w"
  using assms
  by (auto simp add: thumbnail_defs split: option.splits sum.splits if_splits)

lemma settle_writes_failing:
  assumes "write_err en p = Some msg"
  shows "settle_writes en ps dk p = dk p"
  using assms by (induction ps arbitrary: dk) (auto split: option.splits)

lemma extension_of_mp4: "extension_of ''video/mp4'' = ''mp4''"
  by (simp add: extension_of_def)

lemma successful_video_upload:
  assumes "handlerUploadVideo cfg en req w = (Inr resp, w')"
    and "params_videoId req = Some videoId"
    and "formData req = Inr fd" and "fd ''video'' = Some (FileEntry g)"
  shows "\<exists>vd. db w videoId = Some vd \<and> file_type g = ''video/mp4''
           \<and> storeVideo cfg en videoId vd g
                (w\<lparr>trace := trace w @
                    [EvGetBearerToken, EvValidateJWT, EvGetVideo videoId, EvFormData]\<rparr>)
               = (Inr resp, w')"
  using assms
  by (auto simp add: handlerUploadVideo_def checkVideo_def getVideo_def emit_def Let_def
      split: option.splits sum.splits if_splits)

lemma storeVideo_success:
  assumes "storeVideo cfg en videoId vd g w0 = (Inr resp, w')"
    and "file_type g = ''video/mp4''"
  shows "disk w' (path_join en (assetsRoot cfg) (videoId @ ''.mp4'')) = Some (file_bytes g)
       \<and> disk w' (path_join en (assetsRoot cfg) (videoId @ ''.mp4'') @ ''.processed'') = None
       \<and> (\<exists>category content.
             s3 w' (category @ ''/'' @ randomBytes_hex en @ ''.mp4'') = Some (content, ''video/mp4'')
             \<and> resp = JSONResponse 200
                 (vd\<lparr>videoURL := Some (s3CfDistribution cfg @ ''/'' @ category @ ''/''
                        @ randomBytes_hex en @ ''.mp4'')\<rparr>))"
  using assms
  by (auto simp add: storeVideo_def getVideoAspectRatio_def processVideoForFastStart_def
      S3_write_def Bun_delete_def Bun_write_await_def updateVideo_def respondWithJSON_def
      emit_def Let_def extension_of_mp4
      split: option.splits sum.splits list.splits prod.splits if_splits)

section \<open>Rounding\<close>

text \<open>
  The exponent brackets a positive number between two powers of two; rounding moves a
  number by at most a fraction \<open>2\<^sup>-\<^sup>5\<^sup>3\<close> of itself and leaves every integer below \<open>2\<^sup>5\<^sup>3\<close>
  in magnitude where it is. For a dimension below \<open>2\<^sup>3\<^sup>1\<close> in magnitude, the rounded
  computation of \<^verbatim>\<open>Math.floor(16 * (d / 9))\<close> therefore gives the integer quotient: an exact
  quotient is an integer that rounding does not move, and an inexact one is at least
  \<open>1/9\<close> away from the next integer, far more than the two roundings can add up to.
\<close>

lemma bitlen_powi_bounds:
  assumes "0 < p"
  shows "(2::rat) powi (bitlen p - 1) \<le> of_int p" and "of_int p < (2::rat) powi bitlen p"
proof -
  from assms have b: "2 ^ nat (bitlen p - 1) \<le> p" "p < 2 ^ nat (bitlen p)"
    using bitlen_bounds by blast+
  have pos: "1 \<le> bitlen p" using assms bitlen_eq_zero_iff[of p] bitlen_nonneg[of p] by linarith
  have "(2::rat) powi (bitlen p - 1) = 2 ^ nat (bitlen p - 1)"
    using pos by (simp add: power_int_def)
  also have "\<dots> = of_int (2 ^ nat (bitlen p - 1))" by simp
  also have "\<dots> \<le> of_int p" using b(1) by (simp only: of_int_le_iff)
  finally show "(2::rat) powi (bitlen p - 1) \<le> of_int p" .
  have "of_int p < (of_int (2 ^ nat (bitlen p)) :: rat)" using b(2) by (simp only: of_int_less_iff)
  also have "\<dots> = 2 powi bitlen p" using pos by (simp add: power_int_def)
  finally show "of_int p < (2::rat) powi bitlen p" .
qed

lemma expo_bounds:
  assumes "0 < x"
  shows "2 powi expo x \<le> x" and "x < 2 powi (expo x + 1)"
proof -
  obtain p q where pq: "quotient_of x = (p, q)" by (cases "quotient_of x")
  have q: "0 < q" using pq by (rule quotient_of_denom_pos)
  have x: "x = of_int p / of_int q" using pq by (rule quotient_of_div)
  have p: "0 < p" using assms q x by (simp add: zero_less_divide_iff)
  define d where "d = bitlen p - bitlen q"
  note bp = bitlen_powi_bounds[OF p] and bq = bitlen_powi_bounds[OF q]
  have qr: "(0::rat) < of_int q" using q by simp
  have two: "(0::rat) < 2 powi k" for k by simp
  have up: "x < 2 powi (d + 1)"
  proof -
    have "of_int p < (2::rat) powi bitlen p" by (rule bp(2))
    also have "\<dots> = 2 powi (d + 1) * 2 powi (bitlen q - 1)"
      by (simp add: d_def flip: power_int_add)
    also have "\<dots> \<le> 2 powi (d + 1) * of_int q"
      using bq(1) by (simp add: mult_left_mono)
    finally show ?thesis using qr by (simp add: x pos_divide_less_eq)
  qed
  have lo: "2 powi (d - 1) \<le> x"
  proof -
    have "2 powi (d - 1) * of_int q \<le> (2::rat) powi (d - 1) * 2 powi bitlen q"
      using bq(2) by (simp add: mult_left_mono)
    also have "\<dots> = 2 powi (bitlen p - 1)"
      by (simp add: d_def flip: power_int_add)
    also have "\<dots> \<le> of_int p" by (rule bp(1))
    finally show ?thesis using qr by (simp add: x pos_le_divide_eq)
  qed
  have e: "expo x = (if 2 powi d \<le> x then d else d - 1)"
    by (simp add: expo_def pq d_def Let_def)
  show "2 powi expo x \<le> x" using lo by (simp add: e)
  show "x < 2 powi (expo x + 1)" using up by (auto simp add: e not_le)
qed

lemma round_even_err: "\<bar>of_int (round_even y) - y\<bar> \<le> 1 / 2"
proof -
  have "of_int \<lfloor>y\<rfloor> \<le> y" "y < of_int \<lfloor>y\<rfloor> + 1" by linarith+
  then show ?thesis by (auto simp add: round_even_def Let_def)
qed

lemma round_even_of_int: "round_even (of_int n) = n"
  by (simp add: round_even_def)

lemma fl_err_pos:
  assumes "0 < x"
  shows "\<bar>fl x - x\<bar> \<le> x / 2 ^ 53"
proof -
  define u :: rat where "u = 2 powi (expo x - 52)"
  have u: "0 < u" by (simp add: u_def)
  have f: "fl x = of_int (round_even (x / u)) * u"
    using assms by (simp add: fl_def u_def Let_def)
  have "fl x - x = (of_int (round_even (x / u)) - x / u) * u"
    using u by (simp add: f field_simps)
  then have "\<bar>fl x - x\<bar> = \<bar>of_int (round_even (x / u)) - x / u\<bar> * u"
    using u by (simp add: abs_mult)
  also have "\<dots> \<le> 1 / 2 * u"
    using round_even_err[of "x / u"] u by (simp add: mult_right_mono)
  also have "\<dots> = 2 powi expo x / 2 ^ 53"
    by (simp add: u_def power_int_diff)
  also have "\<dots> \<le> x / 2 ^ 53"
    using expo_bounds(1)[OF assms] by (simp add: divide_right_mono)
  finally show ?thesis .
qed

lemma fl_minus: "fl (- x) = - fl x"
  by (simp add: fl_def Let_def)

lemma fl_err: "\<bar>fl x - x\<bar> \<le> \<bar>x\<bar> / 2 ^ 53"
proof -
  consider "0 < x" | "x = 0" | "0 < - x" by linarith
  then show ?thesis
  proof cases
    case 1
    then show ?thesis using fl_err_pos[of x] by simp
  next
    case 2
    then show ?thesis by (simp add: fl_def)
  next
    case 3
    have "\<bar>fl x - x\<bar> = \<bar>fl (- x) - (- x)\<bar>"
      by (simp add: fl_minus abs_minus_commute)
    also have "\<dots> \<le> (- x) / 2 ^ 53" by (rule fl_err_pos[OF 3])
    also have "- x = \<bar>x\<bar>" using 3 by simp
    finally show ?thesis .
  qed
qed

lemma fl_of_int_pos:
  assumes "0 < n" "n < 2 ^ 53"
  shows "fl (of_int n) = of_int n"
proof -
  define x :: rat where "x = of_int n"
  have xp: "0 < x" using assms by (simp add: x_def)
  have "2 powi expo x \<le> x" by (rule expo_bounds(1)[OF xp])
  also have "x < 2 ^ 53" using assms(2) unfolding x_def
    by (metis of_int_less_iff of_int_numeral of_int_power)
  finally have "(2::rat) powi expo x < 2 powi 53" by simp
  then have e1: "expo x < 53" by (rule power_int_le_imp_less_exp[rotated]) simp_all
  define k where "k = nat (52 - expo x)"
  have k: "52 - expo x = int k" using e1 by (simp add: k_def)
  have u: "(2::rat) powi (expo x - 52) = 1 / 2 ^ k"
  proof -
    have "expo x - 52 = - int k" using k by simp
    then have "(2::rat) powi (expo x - 52) = 2 powi (- int k)" by (simp only:)
    also have "\<dots> = 1 / 2 ^ k" by (simp add: power_int_minus divide_inverse)
    finally show ?thesis .
  qed
  have "x / (2 powi (expo x - 52)) = x * 2 ^ k"
    by (simp add: u)
  also have "\<dots> = of_int (n * 2 ^ k)"
    by (simp add: x_def)
  finally have "round_even (x / (2 powi (expo x - 52))) = n * 2 ^ k"
    by (simp only: round_even_of_int)
  then have "fl x = of_int (n * 2 ^ k) * (1 / 2 ^ k)"
    using xp by (simp add: fl_def Let_def u)
  then show ?thesis by (simp add: x_def)
qed

lemma fl_of_int:
  assumes "\<bar>n\<bar> < 2 ^ 53"
  shows "fl (of_int n) = of_int n"
proof -
  consider "0 < n" | "n = 0" | "0 < - n" by linarith
  then show ?thesis
  proof cases
    case 1 then show ?thesis using assms fl_of_int_pos[of n] by simp
  next
    case 2 then show ?thesis by (simp add: fl_def)
  next
    case 3
    then have "fl (of_int (- n)) = of_int (- n)" using assms fl_of_int_pos[of "- n"] by simp
    then show ?thesis by (simp add: fl_minus)
  qed
qed


lemma floor_scaled:
  assumes "\<bar>d\<bar> < 2 ^ 31"
  shows "\<lfloor>fl (16 * fl (fl (of_int d) / 9))\<rfloor> = (16 * d) div 9"
proof -
  have d53: "\<bar>d\<bar> < 2 ^ 53" using assms by simp
  have fd: "fl (of_int d) = of_int d" by (rule fl_of_int[OF d53])
  define x :: rat where "x = of_int d / 9"
  define z where "z = fl x"
  define r where "r = fl (16 * z)"
  have dr: "\<bar>of_int d :: rat\<bar> < 2 ^ 31" using assms
    by (metis of_int_abs of_int_less_iff of_int_numeral of_int_power)
  have xb: "\<bar>x\<bar> < 2 ^ 28" using dr by (simp add: x_def)
  have e1: "\<bar>z - x\<bar> \<le> \<bar>x\<bar> / 2 ^ 53" unfolding z_def by (rule fl_err)
  have e2: "\<bar>r - 16 * z\<bar> \<le> \<bar>16 * z\<bar> / 2 ^ 53" unfolding r_def by (rule fl_err)
  have zb: "\<bar>z\<bar> < 2 ^ 29" using e1 xb by (simp add: abs_if split: if_splits)
  have e3: "\<bar>r - 16 * x\<bar> < 1 / 9" using e1 e2 xb zb by (simp add: abs_if split: if_splits)
  define q where "q = (16 * d) div 9"
  define m where "m = (16 * d) mod 9"
  have qm: "16 * d = 9 * q + m" "0 \<le> m" "m < 9" by (simp_all add: q_def m_def)
  have x16: "16 * x = of_int q + of_int m / 9"
  proof -
    have "16 * x = of_int (16 * d) / 9" by (simp add: x_def)
    also have "\<dots> = of_int (9 * q + m) / 9" by (simp only: qm(1))
    also have "\<dots> = of_int q + of_int m / 9" by (simp add: field_simps)
    finally show ?thesis .
  qed
  show ?thesis
  proof (cases "m = 0")
    case True
    then have "9 dvd d" using qm(1) by presburger
    then obtain k where k: "d = 9 * k" ..
    have kb: "\<bar>16 * k\<bar> < 2 ^ 53" using assms k by simp
    have "x = of_int k" by (simp add: x_def k)
    then have "z = of_int k" unfolding z_def using fl_of_int[of k] kb by simp
    then have "r = of_int (16 * k)" unfolding r_def using fl_of_int[OF kb] by simp
    then have "\<lfloor>r\<rfloor> = 16 * k" by (simp only: floor_of_int)
    moreover have "(16 * d) div 9 = 16 * k" by (simp add: k)
    ultimately show ?thesis unfolding r_def z_def x_def fd by simp
  next
    case False
    then have "1 \<le> m" "m \<le> 8" using qm by simp_all
    then have mr: "(1::rat) \<le> of_int m" "of_int m \<le> (8::rat)" 
      by (metis of_int_1 of_int_le_iff, metis of_int_numeral of_int_le_iff)
    have "of_int q \<le> r" "r < of_int q + 1"
      using e3 x16 mr by (simp_all add: abs_if split: if_splits)
    then have "\<lfloor>r\<rfloor> = q" by (simp add: floor_unique)
    then show ?thesis unfolding r_def z_def x_def fd q_def .
  qed
qed


lemma floor_16_9_of_int:
  assumes "\<bar>d\<bar> < 2 ^ 31"
  shows "floor_16_9 (Some d) = Some (of_int ((16 * d) div 9))"
  by (simp only: floor_16_9.simps floor_scaled[OF assms])

lemma strict_eq_of_int:
  assumes "\<bar>a\<bar> < 2 ^ 31"
  shows "strict_eq (Some a) (Some (of_int k)) \<longleftrightarrow> a = k"
proof -
  have "\<bar>a\<bar> < 2 ^ 53" using assms by simp
  then have "fl (of_int a) = of_int a" by (rule fl_of_int)
  then show ?thesis by (simp only: strict_eq.simps of_int_eq_iff)
qed

lemma aspect_of_ints:
  assumes "\<bar>w\<bar> < 2 ^ 31" and "\<bar>h\<bar> < 2 ^ 31"
  shows "aspect (Some w) (Some h) =
           (if w = (16 * h) div 9 then ''landscape''
            else if h = (16 * w) div 9 then ''portrait''
            else ''other'')"
  unfolding aspect_def
  by (simp only: floor_16_9_of_int[OF assms(1)] floor_16_9_of_int[OF assms(2)]
      strict_eq_of_int[OF assms(1)] strict_eq_of_int[OF assms(2)])

lemma aspect_undefined:
  "aspect None h = ''other''" "aspect w None = ''other''"
  by (cases w; cases h; simp add: aspect_def)+

lemma demo_aspect: "aspect (Some 1920) (Some 1080) = ''landscape''"
  using aspect_of_ints[of 1920 1080] by simp

section \<open>The route parameter\<close>

text \<open>
  C10. In each of the three handlers (reading a thumbnail, uploading a thumbnail, uploading
  a video), a request whose \<open>videoId\<close> parameter is absent or empty fails with
  \<open>BadRequestError\<close>, and the world is left exactly as it was: no credential has been
  looked at, no record has been looked up, nothing else has happened.
\<close>

theorem missing_videoId_is_bad_request:
  assumes "params_videoId req = None \<or> params_videoId req = Some []"
  shows "handlerGetThumbnail cfg req w = (Inl (BadRequestError ''Invalid video ID''), w)
       \<and> handlerUploadThumbnail cfg en req w = (Inl (BadRequestError ''Invalid video ID''), w)
       \<and> handlerUploadVideo cfg en req w = (Inl (BadRequestError ''Invalid video ID''), w)"
  using assms
  by (auto simp add: handlerGetThumbnail_def handlerUploadThumbnail_def handlerUploadVideo_def)

theorem missing_videoId_is_bad_request_witness:
  "(params_videoId (demo_request (Some []) ''alice'' Map.empty) = None
      \<or> params_videoId (demo_request (Some []) ''alice'' Map.empty) = Some [])
   \<and> handlerGetThumbnail demo_cfg (demo_request (Some []) ''alice'' Map.empty) demo_world
       = (Inl (BadRequestError ''Invalid video ID''), demo_world)
   \<and> handlerUploadThumbnail demo_cfg demo_env (demo_request (Some []) ''alice'' Map.empty)
         demo_world
       = (Inl (BadRequestError ''Invalid video ID''), demo_world)
   \<and> handlerUploadVideo demo_cfg demo_env (demo_request (Some []) ''alice'' Map.empty)
         demo_world
       = (Inl (BadRequestError ''Invalid video ID''), demo_world)"
proof -
  have h: "params_videoId (demo_request (Some []) ''alice'' Map.empty) = None
      \<or> params_videoId (demo_request (Some []) ''alice'' Map.empty) = Some []"
    by (simp add: demo_request_def)
  from missing_videoId_is_bad_request[OF h, of demo_cfg demo_world demo_env] h
  show ?thesis by simp
qed

section \<open>The validation gates\<close>

text \<open>
  C6. An upload whose declared size exceeds the ceiling (10 MiB for a thumbnail, 1 GiB for
  a video) is rejected and no storage write is attempted or made, on the disk or in the
  object store; the database is left as it was. Whatever the earlier steps of the handler
  do, the request ends in an error. Once the request is past the steps that precede the
  check of the file (a non-empty identifier and a valid credential; for a video also an
  existing record owned by the user), the error is the \<open>BadRequestError\<close> of the size check,
  and the only events are those earlier steps and the reading of the form.
\<close>

theorem oversized_upload_rejected:
  assumes "formData req = Inr fd"
  shows
    "(fd ''thumbnail'' = Some (FileEntry f) \<and> int (file_size f) > MAX_UPLOAD_SIZE_thumbnails \<longrightarrow>
        (\<exists>e. fst (handlerUploadThumbnail cfg en req w) = Inl e)
        \<and> no_storage_write w (snd (handlerUploadThumbnail cfg en req w))
        \<and> db (snd (handlerUploadThumbnail cfg en req w)) = db w
        \<and> (params_videoId req = Some videoId \<and> videoId \<noteq> []
             \<and> getBearerToken en (headers req) = Inr token
             \<and> validateJWT en token (jwtSecret cfg) = Inr user \<longrightarrow>
            handlerUploadThumbnail cfg en req w =
              (Inl (BadRequestError ''Thumbnail file size is greater than 10MB''),
               w\<lparr>trace := trace w @ [EvGetBearerToken, EvValidateJWT, EvConsoleLog, EvFormData]\<rparr>)))
     \<and> (fd ''video'' = Some (FileEntry g) \<and> int (file_size g) > MAX_UPLOAD_SIZE_videos \<longrightarrow>
        (\<exists>e. fst (handlerUploadVideo cfg en req w) = Inl e)
        \<and> no_storage_write w (snd (handlerUploadVideo cfg en req w))
        \<and> db (snd (handlerUploadVideo cfg en req w)) = db w
        \<and> (params_videoId req = Some videoId \<and> videoId \<noteq> []
             \<and> getBearerToken en (headers req) = Inr token
             \<and> validateJWT en token (jwtSecret cfg) = Inr user
             \<and> db w videoId = Some vd \<and> userID vd = user \<longrightarrow>
            handlerUploadVideo cfg en req w =
              (Inl (BadRequestError ''video file size is greater than 1GB''),
               w\<lparr>trace := trace w @ [EvGetBearerToken, EvValidateJWT, EvGetVideo videoId, EvFormData]\<rparr>)))"
proof (intro conjI impI)
  assume a: "fd ''thumbnail'' = Some (FileEntry f) \<and> int (file_size f) > MAX_UPLOAD_SIZE_thumbnails"
  show "\<exists>e. fst (handlerUploadThumbnail cfg en req w) = Inl e"
    using assms a by (auto simp add: handlerUploadThumbnail_def checkThumbnail_def Let_def split: option.splits sum.splits)
  show "no_storage_write w (snd (handlerUploadThumbnail cfg en req w))"
    using assms a by (auto simp add: handlerUploadThumbnail_def checkThumbnail_def  emit_def observe_defs Let_def split: option.splits sum.splits)
  show "db (snd (handlerUploadThumbnail cfg en req w)) = db w"
    using assms a by (auto simp add: handlerUploadThumbnail_def checkThumbnail_def emit_def Let_def split: option.splits sum.splits)
  show "handlerUploadThumbnail cfg en req w =
              (Inl (BadRequestError ''Thumbnail file size is greater than 10MB''),
               w\<lparr>trace := trace w @ [EvGetBearerToken, EvValidateJWT, EvConsoleLog, EvFormData]\<rparr>)"
    if "params_videoId req = Some videoId \<and> videoId \<noteq> []
             \<and> getBearerToken en (headers req) = Inr token
             \<and> validateJWT en token (jwtSecret cfg) = Inr user"
    using assms a that by (simp add: handlerUploadThumbnail_def checkThumbnail_def emit_def Let_def)
next
  assume a: "fd ''video'' = Some (FileEntry g) \<and> int (file_size g) > MAX_UPLOAD_SIZE_videos"
  show "\<exists>e. fst (handlerUploadVideo cfg en req w) = Inl e"
    using assms a by (auto simp add: handlerUploadVideo_def checkVideo_def Let_def split: option.splits sum.splits)
  show "no_storage_write w (snd (handlerUploadVideo cfg en req w))"
    using assms a by (auto simp add: handlerUploadVideo_def checkVideo_def  emit_def observe_defs Let_def split: option.splits sum.splits)
  show "db (snd (handlerUploadVideo cfg en req w)) = db w"
    using assms a by (auto simp add: handlerUploadVideo_def checkVideo_def emit_def Let_def split: option.splits sum.splits)
  show "handlerUploadVideo cfg en req w =
              (Inl (BadRequestError ''video file size is greater than 1GB''),
               w\<lparr>trace := trace w @ [EvGetBearerToken, EvValidateJWT, EvGetVideo videoId, EvFormData]\<rparr>)"
    if "params_videoId req = Some videoId \<and> videoId \<noteq> []
             \<and> getBearerToken en (headers req) = Inr token
             \<and> validateJWT en token (jwtSecret cfg) = Inr user
             \<and> db w videoId = Some vd \<and> userID vd = user"
    using assms a that by (simp add: handlerUploadVideo_def checkVideo_def getVideo_def emit_def Let_def)
qed

theorem oversized_upload_rejected_witness:
  "formData (demo_request (Some ''v1'') ''alice''
       (demo_form (demo_jpeg\<lparr>file_size := 10485761\<rparr>) (demo_mp4\<lparr>file_size := 1073741825\<rparr>)))
     = Inr (demo_form (demo_jpeg\<lparr>file_size := 10485761\<rparr>) (demo_mp4\<lparr>file_size := 1073741825\<rparr>))
   \<and> int (file_size (demo_jpeg\<lparr>file_size := 10485761\<rparr>)) > MAX_UPLOAD_SIZE_thumbnails
   \<and> int (file_size (demo_mp4\<lparr>file_size := 1073741825\<rparr>)) > MAX_UPLOAD_SIZE_videos
   \<and> handlerUploadThumbnail demo_cfg demo_env
        (demo_request (Some ''v1'') ''alice''
          (demo_form (demo_jpeg\<lparr>file_size := 10485761\<rparr>) (demo_mp4\<lparr>file_size := 1073741825\<rparr>)))
        demo_world
      = (Inl (BadRequestError ''Thumbnail file size is greater than 10MB''),
         demo_world\<lparr>trace := trace demo_world @
            [EvGetBearerToken, EvValidateJWT, EvConsoleLog, EvFormData]\<rparr>)
   \<and> handlerUploadVideo demo_cfg demo_env
        (demo_request (Some ''v1'') ''alice''
          (demo_form (demo_jpeg\<lparr>file_size := 10485761\<rparr>) (demo_mp4\<lparr>file_size := 1073741825\<rparr>)))
        demo_world
      = (Inl (BadRequestError ''video file size is greater than 1GB''),
         demo_world\<lparr>trace := trace demo_world @
            [EvGetBearerToken, EvValidateJWT, EvGetVideo ''v1'', EvFormData]\<rparr>)
   \<and> no_storage_write demo_world (snd (handlerUploadThumbnail demo_cfg demo_env
        (demo_request (Some ''v1'') ''alice''
          (demo_form (demo_jpeg\<lparr>file_size := 10485761\<rparr>) (demo_mp4\<lparr>file_size := 1073741825\<rparr>)))
        demo_world))
   \<and> no_storage_write demo_world (snd (handlerUploadVideo demo_cfg demo_env
        (demo_request (Some ''v1'') ''alice''
          (demo_form (demo_jpeg\<lparr>file_size := 10485761\<rparr>) (demo_mp4\<lparr>file_size := 1073741825\<rparr>)))
        demo_world))"
  using oversized_upload_rejected
    [where req = "demo_request (Some ''v1'') ''alice''
          (demo_form (demo_jpeg\<lparr>file_size := 10485761\<rparr>) (demo_mp4\<lparr>file_size := 1073741825\<rparr>))"
      and fd = "demo_form (demo_jpeg\<lparr>file_size := 10485761\<rparr>) (demo_mp4\<lparr>file_size := 1073741825\<rparr>)"
      and f = "demo_jpeg\<lparr>file_size := 10485761\<rparr>"
      and g = "demo_mp4\<lparr>file_size := 1073741825\<rparr>"
      and cfg = demo_cfg and en = demo_env and w = demo_world and videoId = "''v1''"
      and token = "''alice''" and user = "''alice''" and vd = demo_video]
  by (simp add: demo_defs max_upload_sizes thumbnail_defs video_defs observe_defs)

text \<open>
  C7. An upload whose declared media type is outside the whitelist (\<open>image/jpeg\<close> and
  \<open>image/png\<close> for a thumbnail, \<open>video/mp4\<close> for a video) is rejected before any external
  program is started: the run contains no start of a program (and no storage write). Once
  the request is past the steps that precede the check of the file, the error is a
  \<open>BadRequestError\<close>; for a file within the size limit it is the one of the media-type
  check.
\<close>

theorem unlisted_type_rejected_before_processes:
  assumes "formData req = Inr fd"
  shows
    "(fd ''thumbnail'' = Some (FileEntry f)
        \<and> file_type f \<notin> set [''image/jpeg'', ''image/png''] \<longrightarrow>
        (\<exists>e. fst (handlerUploadThumbnail cfg en req w) = Inl e)
        \<and> no_process w (snd (handlerUploadThumbnail cfg en req w))
        \<and> no_storage_write w (snd (handlerUploadThumbnail cfg en req w))
        \<and> (params_videoId req = Some videoId \<and> videoId \<noteq> []
             \<and> getBearerToken en (headers req) = Inr token
             \<and> validateJWT en token (jwtSecret cfg) = Inr user \<longrightarrow>
            (\<exists>m. fst (handlerUploadThumbnail cfg en req w) = Inl (BadRequestError m))
            \<and> (int (file_size f) \<le> MAX_UPLOAD_SIZE_thumbnails \<longrightarrow>
                handlerUploadThumbnail cfg en req w =
                  (Inl (BadRequestError ''Only JPEG and PNG files allowed!''),
                   w\<lparr>trace := trace w @
                        [EvGetBearerToken, EvValidateJWT, EvConsoleLog, EvFormData]\<rparr>))))
     \<and> (fd ''video'' = Some (FileEntry g) \<and> file_type g \<notin> set [''video/mp4''] \<longrightarrow>
        (\<exists>e. fst (handlerUploadVideo cfg en req w) = Inl e)
        \<and> no_process w (snd (handlerUploadVideo cfg en req w))
        \<and> no_storage_write w (snd (handlerUploadVideo cfg en req w))
        \<and> (params_videoId req = Some videoId \<and> videoId \<noteq> []
             \<and> getBearerToken en (headers req) = Inr token
             \<and> validateJWT en token (jwtSecret cfg) = Inr user
             \<and> db w videoId = Some vd \<and> userID vd = user \<longrightarrow>
            (\<exists>m. fst (handlerUploadVideo cfg en req w) = Inl (BadRequestError m))
            \<and> (int (file_size g) \<le> MAX_UPLOAD_SIZE_videos \<longrightarrow>
                handlerUploadVideo cfg en req w =
                  (Inl (BadRequestError ''Only JPEG and PNG files allowed!''),
                   w\<lparr>trace := trace w @
                        [EvGetBearerToken, EvValidateJWT, EvGetVideo videoId, EvFormData]\<rparr>))))"
proof (intro conjI impI)
  assume a: "fd ''thumbnail'' = Some (FileEntry f)
        \<and> file_type f \<notin> set [''image/jpeg'', ''image/png'']"
  show "\<exists>e. fst (handlerUploadThumbnail cfg en req w) = Inl e"
    using assms a
    by (auto simp add: handlerUploadThumbnail_def checkThumbnail_def Let_def
        split: option.splits sum.splits)
  show "no_process w (snd (handlerUploadThumbnail cfg en req w))"
    using assms a
    by (auto simp add: handlerUploadThumbnail_def checkThumbnail_def emit_def observe_defs
        Let_def split: option.splits sum.splits)
  show "no_storage_write w (snd (handlerUploadThumbnail cfg en req w))"
    using assms a
    by (auto simp add: handlerUploadThumbnail_def checkThumbnail_def emit_def observe_defs
        Let_def split: option.splits sum.splits)
  assume b: "params_videoId req = Some videoId \<and> videoId \<noteq> []
             \<and> getBearerToken en (headers req) = Inr token
             \<and> validateJWT en token (jwtSecret cfg) = Inr user"
  show "\<exists>m. fst (handlerUploadThumbnail cfg en req w) = Inl (BadRequestError m)"
    using assms a b by (simp add: handlerUploadThumbnail_def checkThumbnail_def Let_def)
  show "handlerUploadThumbnail cfg en req w =
                  (Inl (BadRequestError ''Only JPEG and PNG files allowed!''),
                   w\<lparr>trace := trace w @
                        [EvGetBearerToken, EvValidateJWT, EvConsoleLog, EvFormData]\<rparr>)"
    if "int (file_size f) \<le> MAX_UPLOAD_SIZE_thumbnails"
    using assms a b that
    by (simp add: handlerUploadThumbnail_def checkThumbnail_def emit_def Let_def)
next
  assume a: "fd ''video'' = Some (FileEntry g) \<and> file_type g \<notin> set [''video/mp4'']"
  show "\<exists>e. fst (handlerUploadVideo cfg en req w) = Inl e"
    using assms a
    by (auto simp add: handlerUploadVideo_def checkVideo_def Let_def
        split: option.splits sum.splits)
  show "no_process w (snd (handlerUploadVideo cfg en req w))"
    using assms a
    by (auto simp add: handlerUploadVideo_def checkVideo_def emit_def observe_defs
        Let_def split: option.splits sum.splits)
  show "no_storage_write w (snd (handlerUploadVideo cfg en req w))"
    using assms a
    by (auto simp add: handlerUploadVideo_def checkVideo_def emit_def observe_defs
        Let_def split: option.splits sum.splits)
  assume b: "params_videoId req = Some videoId \<and> videoId \<noteq> []
             \<and> getBearerToken en (headers req) = Inr token
             \<and> validateJWT en token (jwtSecret cfg) = Inr user
             \<and> db w videoId = Some vd \<and> userID vd = user"
  show "\<exists>m. fst (handlerUploadVideo cfg en req w) = Inl (BadRequestError m)"
    using assms a b
    by (simp add: handlerUploadVideo_def checkVideo_def getVideo_def emit_def Let_def)
  show "handlerUploadVideo cfg en req w =
                  (Inl (BadRequestError ''Only JPEG and PNG files allowed!''),
                   w\<lparr>trace := trace w @
                        [EvGetBearerToken, EvValidateJWT, EvGetVideo videoId, EvFormData]\<rparr>)"
    if "int (file_size g) \<le> MAX_UPLOAD_SIZE_videos"
    using assms a b that
    by (simp add: handlerUploadVideo_def checkVideo_def getVideo_def emit_def Let_def)
qed

theorem unlisted_type_rejected_before_processes_witness:
  "formData (demo_request (Some ''v1'') ''alice''
       (demo_form (demo_jpeg\<lparr>file_type := ''image/gif''\<rparr>) (demo_mp4\<lparr>file_type := ''video/webm''\<rparr>)))
     = Inr (demo_form (demo_jpeg\<lparr>file_type := ''image/gif''\<rparr>) (demo_mp4\<lparr>file_type := ''video/webm''\<rparr>))
   \<and> file_type (demo_jpeg\<lparr>file_type := ''image/gif''\<rparr>) \<notin> set [''image/jpeg'', ''image/png'']
   \<and> file_type (demo_mp4\<lparr>file_type := ''video/webm''\<rparr>) \<notin> set [''video/mp4'']
   \<and> handlerUploadThumbnail demo_cfg demo_env
        (demo_request (Some ''v1'') ''alice''
          (demo_form (demo_jpeg\<lparr>file_type := ''image/gif''\<rparr>) (demo_mp4\<lparr>file_type := ''video/webm''\<rparr>)))
        demo_world
      = (Inl (BadRequestError ''Only JPEG and PNG files allowed!''),
         demo_world\<lparr>trace := trace demo_world @
            [EvGetBearerToken, EvValidateJWT, EvConsoleLog, EvFormData]\<rparr>)
   \<and> handlerUploadVideo demo_cfg demo_env
        (demo_request (Some ''v1'') ''alice''
          (demo_form (demo_jpeg\<lparr>file_type := ''image/gif''\<rparr>) (demo_mp4\<lparr>file_type := ''video/webm''\<rparr>)))
        demo_world
      = (Inl (BadRequestError ''Only JPEG and PNG files allowed!''),
         demo_world\<lparr>trace := trace demo_world @
            [EvGetBearerToken, EvValidateJWT, EvGetVideo ''v1'', EvFormData]\<rparr>)
   \<and> no_process demo_world (snd (handlerUploadThumbnail demo_cfg demo_env
        (demo_request (Some ''v1'') ''alice''
          (demo_form (demo_jpeg\<lparr>file_type := ''image/gif''\<rparr>) (demo_mp4\<lparr>file_type := ''video/webm''\<rparr>)))
        demo_world))
   \<and> no_process demo_world (snd (handlerUploadVideo demo_cfg demo_env
        (demo_request (Some ''v1'') ''alice''
          (demo_form (demo_jpeg\<lparr>file_type := ''image/gif''\<rparr>) (demo_mp4\<lparr>file_type := ''video/webm''\<rparr>)))
        demo_world))"
  using unlisted_type_rejected_before_processes
    [where req = "demo_request (Some ''v1'') ''alice''
          (demo_form (demo_jpeg\<lparr>file_type := ''image/gif''\<rparr>) (demo_mp4\<lparr>file_type := ''video/webm''\<rparr>))"
      and fd = "demo_form (demo_jpeg\<lparr>file_type := ''image/gif''\<rparr>) (demo_mp4\<lparr>file_type := ''video/webm''\<rparr>)"
      and f = "demo_jpeg\<lparr>file_type := ''image/gif''\<rparr>"
      and g = "demo_mp4\<lparr>file_type := ''video/webm''\<rparr>"
      and cfg = demo_cfg and en = demo_env and w = demo_world and videoId = "''v1''"
      and token = "''alice''" and user = "''alice''" and vd = demo_video]
  by (simp add: demo_defs max_upload_sizes thumbnail_defs video_defs observe_defs)

text \<open>
  C9. The ceilings are 10 MiB (\<open>10485760\<close> bytes) and 1 GiB (\<open>1073741824\<close> bytes), and
  a file of exactly that size passes the size check, which compares with strict
  greater-than: the request is not rejected with the error of the size check; with a whitelisted media type it is not rejected as a
  bad request at all, and a thumbnail for a record the user owns is then stored with
  status 200.
\<close>

theorem ceiling_is_accepted:
  assumes "params_videoId req = Some videoId" and "videoId \<noteq> []"
    and "getBearerToken en (headers req) = Inr token"
    and "validateJWT en token (jwtSecret cfg) = Inr user"
    and "formData req = Inr fd"
  shows
    "MAX_UPLOAD_SIZE_thumbnails = 10 * 2 ^ 20 \<and> MAX_UPLOAD_SIZE_videos = 2 ^ 30
     \<and> (fd ''thumbnail'' = Some (FileEntry f)
          \<and> int (file_size f) = MAX_UPLOAD_SIZE_thumbnails \<longrightarrow>
        fst (handlerUploadThumbnail cfg en req w)
          \<noteq> Inl (BadRequestError ''Thumbnail file size is greater than 10MB'')
        \<and> (file_type f \<in> set [''image/jpeg'', ''image/png''] \<longrightarrow>
             (\<forall>m. fst (handlerUploadThumbnail cfg en req w) \<noteq> Inl (BadRequestError m))
             \<and> (db w videoId = Some vd \<and> userID vd = user \<longrightarrow>
                 (\<exists>vd'. fst (handlerUploadThumbnail cfg en req w) = Inr (JSONResponse 200 vd')))))
     \<and> (fd ''video'' = Some (FileEntry g)
          \<and> int (file_size g) = MAX_UPLOAD_SIZE_videos
          \<and> db w videoId = Some vd \<and> userID vd = user \<longrightarrow>
        fst (handlerUploadVideo cfg en req w)
          \<noteq> Inl (BadRequestError ''video file size is greater than 1GB'')
        \<and> (file_type g \<in> set [''video/mp4''] \<longrightarrow>
             (\<forall>m. fst (handlerUploadVideo cfg en req w) \<noteq> Inl (BadRequestError m))))"
proof (intro conjI impI allI)
  show "MAX_UPLOAD_SIZE_thumbnails = 10 * 2 ^ 20" "MAX_UPLOAD_SIZE_videos = 2 ^ 30"
    by (simp_all add: max_upload_sizes)
next
  assume a: "fd ''thumbnail'' = Some (FileEntry f)
          \<and> int (file_size f) = MAX_UPLOAD_SIZE_thumbnails"
  show "fst (handlerUploadThumbnail cfg en req w)
          \<noteq> Inl (BadRequestError ''Thumbnail file size is greater than 10MB'')"
    using assms a by (auto simp add: thumbnail_defs split: option.splits)
  assume b: "file_type f \<in> set [''image/jpeg'', ''image/png'']"
  show "fst (handlerUploadThumbnail cfg en req w) \<noteq> Inl (BadRequestError m)" for m
    using assms a b by (auto simp add: thumbnail_defs split: option.splits)
  show "\<exists>vd'. fst (handlerUploadThumbnail cfg en req w) = Inr (JSONResponse 200 vd')"
    if "db w videoId = Some vd \<and> userID vd = user"
    using assms a b that by (auto simp add: thumbnail_defs)
next
  assume a: "fd ''video'' = Some (FileEntry g)
          \<and> int (file_size g) = MAX_UPLOAD_SIZE_videos
          \<and> db w videoId = Some vd \<and> userID vd = user"
  have h: "handlerUploadVideo cfg en req w =
      checkVideo cfg en videoId vd g
        (w\<lparr>trace := trace w @ [EvGetBearerToken, EvValidateJWT, EvGetVideo videoId, EvFormData]\<rparr>)"
    using assms a by (simp add: handlerUploadVideo_def getVideo_def emit_def Let_def)
  show "fst (handlerUploadVideo cfg en req w)
          \<noteq> Inl (BadRequestError ''video file size is greater than 1GB'')"
    using a storeVideo_not_bad_request by (simp add: h checkVideo_def)
  show "fst (handlerUploadVideo cfg en req w) \<noteq> Inl (BadRequestError m)"
    if "file_type g \<in> set [''video/mp4'']" for m
    using a that storeVideo_not_bad_request by (simp add: h checkVideo_def)
qed

theorem ceiling_is_accepted_witness:
  "params_videoId (demo_request (Some ''v1'') ''alice''
       (demo_form (demo_jpeg\<lparr>file_size := 10485760\<rparr>) (demo_mp4\<lparr>file_size := 1073741824\<rparr>)))
     = Some ''v1''
   \<and> ''v1'' \<noteq> []
   \<and> getBearerToken demo_env (headers (demo_request (Some ''v1'') ''alice''
       (demo_form (demo_jpeg\<lparr>file_size := 10485760\<rparr>) (demo_mp4\<lparr>file_size := 1073741824\<rparr>))))
     = Inr ''alice''
   \<and> validateJWT demo_env ''alice'' (jwtSecret demo_cfg) = Inr ''alice''
   \<and> formData (demo_request (Some ''v1'') ''alice''
       (demo_form (demo_jpeg\<lparr>file_size := 10485760\<rparr>) (demo_mp4\<lparr>file_size := 1073741824\<rparr>)))
     = Inr (demo_form (demo_jpeg\<lparr>file_size := 10485760\<rparr>) (demo_mp4\<lparr>file_size := 1073741824\<rparr>))
   \<and> int (file_size (demo_jpeg\<lparr>file_size := 10485760\<rparr>)) = MAX_UPLOAD_SIZE_thumbnails
   \<and> int (file_size (demo_mp4\<lparr>file_size := 1073741824\<rparr>)) = MAX_UPLOAD_SIZE_videos
   \<and> fst (handlerUploadThumbnail demo_cfg demo_env
        (demo_request (Some ''v1'') ''alice''
          (demo_form (demo_jpeg\<lparr>file_size := 10485760\<rparr>) (demo_mp4\<lparr>file_size := 1073741824\<rparr>)))
        demo_world)
      = Inr (JSONResponse 200
          (demo_video\<lparr>thumbnailURL := Some ''http://localhost:8091/assets/q83vEg.jpeg''\<rparr>))
   \<and> fst (handlerUploadVideo demo_cfg demo_env
        (demo_request (Some ''v1'') ''alice''
          (demo_form (demo_jpeg\<lparr>file_size := 10485760\<rparr>) (demo_mp4\<lparr>file_size := 1073741824\<rparr>)))
        demo_world)
      = Inr (JSONResponse 200
          (demo_video\<lparr>videoURL := Some ''https://cdn.example/landscape/c0ffee.mp4''\<rparr>))"
  using ceiling_is_accepted
    [where req = "demo_request (Some ''v1'') ''alice''
          (demo_form (demo_jpeg\<lparr>file_size := 10485760\<rparr>) (demo_mp4\<lparr>file_size := 1073741824\<rparr>))"
      and fd = "demo_form (demo_jpeg\<lparr>file_size := 10485760\<rparr>) (demo_mp4\<lparr>file_size := 1073741824\<rparr>)"
      and f = "demo_jpeg\<lparr>file_size := 10485760\<rparr>"
      and g = "demo_mp4\<lparr>file_size := 1073741824\<rparr>"
      and cfg = demo_cfg and en = demo_env and w = demo_world and videoId = "''v1''"
      and token = "''alice''" and user = "''alice''" and vd = demo_video]
  by (simp add: demo_defs max_upload_sizes thumbnail_defs video_defs demo_aspect extension_of_def)

section \<open>Ownership and the order of the checks\<close>







section \<open>Where an uploaded thumbnail goes\<close>

text \<open>
  C2, as the code has it. Let a JPEG thumbnail upload for the video \<open>v\<close> succeed. The
  handler does not touch the map \<open>videoThumbnails\<close> that the read handler serves from (no
  handler does: the line that filled it is commented out), so a following
  \<^verbatim>\<open>GET /thumbnails/v\<close> fails with \<open>NotFoundError\<close> (``Thumbnail not found'') whenever the
  map had no entry for \<open>v\<close>, before and after the started write has come to its end. The
  uploaded bytes are handed unchanged to a write to the file \<open>name.jpeg\<close> in the assets
  directory, which holds exactly those bytes once the write has succeeded, and the response
  carries the record with its \<open>thumbnailURL\<close> set to
  \<^verbatim>\<open>http://localhost:<port>/assets/<name>.jpeg\<close>.
\<close>

theorem thumbnail_upload_then_get:
  assumes "handlerUploadThumbnail cfg en req w = (Inr resp, w')"
    and "params_videoId req = Some v"
    and "formData req = Inr fd" and "fd ''thumbnail'' = Some (FileEntry f)"
    and "file_type f = ''image/jpeg''"
    and "params_videoId greq = Some v"
  shows
    "videoThumbnails w' = videoThumbnails w
     \<and> (videoThumbnails w v = None \<longrightarrow>
          fst (handlerGetThumbnail cfg greq w') = Inl (NotFoundError ''Thumbnail not found'')
          \<and> fst (handlerGetThumbnail cfg greq (settle en w'))
              = Inl (NotFoundError ''Thumbnail not found''))
     \<and> pending w' = pending w @
          [(path_join en (assetsRoot cfg) (randomBytes_base64url en @ ''.jpeg''), file_bytes f)]
     \<and> (write_err en (path_join en (assetsRoot cfg) (randomBytes_base64url en @ ''.jpeg'')) = None
          \<longrightarrow> disk (settle en w')
                (path_join en (assetsRoot cfg) (randomBytes_base64url en @ ''.jpeg''))
              = Some (file_bytes f))
     \<and> (\<exists>vd. db w v = Some vd
           \<and> resp = JSONResponse 200
                (vd\<lparr>thumbnailURL := Some (''http://localhost:'' @ port cfg @ ''/assets/''
                       @ randomBytes_base64url en @ ''.jpeg'')\<rparr>))
     \<and> videoThumbnails (snd (handlerGetThumbnail cfg r1 w0)) = videoThumbnails w0
     \<and> videoThumbnails (snd (handlerUploadThumbnail cfg en r2 w0)) = videoThumbnails w0
     \<and> videoThumbnails (snd (handlerUploadVideo cfg en r3 w0)) = videoThumbnails w0"
proof -
  from successful_thumbnail_upload[OF assms(1-4)] obtain vd where
    vd: "db w v = Some vd" and nonempty: "v \<noteq> []"
    and resp: "resp = JSONResponse 200
                (vd\<lparr>thumbnailURL := Some (''http://localhost:'' @ port cfg @ ''/assets/''
                       @ randomBytes_base64url en @ ''.jpeg'')\<rparr>)"
    and db': "db w' = (db w)(video_id vd \<mapsto>
                vd\<lparr>thumbnailURL := Some (''http://localhost:'' @ port cfg @ ''/assets/''
                       @ randomBytes_base64url en @ ''.jpeg'')\<rparr>)"
    and pend: "pending w' = pending w @
          [(path_join en (assetsRoot cfg) (randomBytes_base64url en @ ''.jpeg''), file_bytes f)]"
    by (auto simp add: assms(5) extension_of_jpeg)
  have vt: "videoThumbnails w' = videoThumbnails w"
    using uploadThumbnail_keeps_map[of cfg en req w] by (simp add: assms(1))
  have ex: "\<exists>x. db w' v = Some x" using vd by (simp add: db')
  have get: "fst (handlerGetThumbnail cfg greq w') = Inl (NotFoundError ''Thumbnail not found'')"
    if "videoThumbnails w v = None"
    using that ex assms(6) vt nonempty
    by (auto simp add: handlerGetThumbnail_def getVideo_def emit_def Let_def)
  have get': "fst (handlerGetThumbnail cfg greq (settle en w'))
      = Inl (NotFoundError ''Thumbnail not found'')"
    if "videoThumbnails w v = None"
    using that ex assms(6) vt nonempty
    by (auto simp add: handlerGetThumbnail_def getVideo_def emit_def settle_def Let_def)
  have dk: "disk (settle en w')
                (path_join en (assetsRoot cfg) (randomBytes_base64url en @ ''.jpeg''))
              = Some (file_bytes f)"
    if "write_err en (path_join en (assetsRoot cfg) (randomBytes_base64url en @ ''.jpeg'')) = None"
    using settle_writes_last[OF that] by (simp add: settle_def pend)
  show ?thesis
    using vt get get' pend dk vd resp
    by (simp add: getThumbnail_keeps_map uploadThumbnail_keeps_map uploadVideo_keeps_map)
qed

theorem thumbnail_upload_then_get_witness:
  "handlerUploadThumbnail demo_cfg demo_env
      (demo_request (Some ''v1'') ''alice'' (demo_form demo_jpeg demo_mp4)) demo_world
     = (Inr (JSONResponse 200
          (demo_video\<lparr>thumbnailURL := Some ''http://localhost:8091/assets/q83vEg.jpeg''\<rparr>)),
        demo_world
          \<lparr>db := [''v1'' \<mapsto>
              demo_video\<lparr>thumbnailURL := Some ''http://localhost:8091/assets/q83vEg.jpeg''\<rparr>],
           pending := [(''assets/q83vEg.jpeg'', file_bytes demo_jpeg)],
           trace := [EvGetBearerToken, EvValidateJWT, EvConsoleLog, EvFormData, EvArrayBuffer,
             EvGetVideo ''v1'', EvBunWrite ''assets/q83vEg.jpeg'',
             EvUpdateVideo
               (demo_video\<lparr>thumbnailURL := Some ''http://localhost:8091/assets/q83vEg.jpeg''\<rparr>)]\<rparr>)
   \<and> file_type demo_jpeg = ''image/jpeg''
   \<and> videoThumbnails demo_world ''v1'' = None
   \<and> write_err demo_env ''assets/q83vEg.jpeg'' = None
   \<and> fst (handlerGetThumbnail demo_cfg (demo_request (Some ''v1'') ''alice'' Map.empty)
        (snd (handlerUploadThumbnail demo_cfg demo_env
           (demo_request (Some ''v1'') ''alice'' (demo_form demo_jpeg demo_mp4)) demo_world)))
      = Inl (NotFoundError ''Thumbnail not found'')
   \<and> disk (settle demo_env (snd (handlerUploadThumbnail demo_cfg demo_env
           (demo_request (Some ''v1'') ''alice'' (demo_form demo_jpeg demo_mp4)) demo_world)))
        ''assets/q83vEg.jpeg''
      = Some (file_bytes demo_jpeg)"
proof -
  have up: "handlerUploadThumbnail demo_cfg demo_env
      (demo_request (Some ''v1'') ''alice'' (demo_form demo_jpeg demo_mp4)) demo_world
     = (Inr (JSONResponse 200
          (demo_video\<lparr>thumbnailURL := Some ''http://localhost:8091/assets/q83vEg.jpeg''\<rparr>)),
        demo_world
          \<lparr>db := [''v1'' \<mapsto>
              demo_video\<lparr>thumbnailURL := Some ''http://localhost:8091/assets/q83vEg.jpeg''\<rparr>],
           pending := [(''assets/q83vEg.jpeg'', file_bytes demo_jpeg)],
           trace := [EvGetBearerToken, EvValidateJWT, EvConsoleLog, EvFormData, EvArrayBuffer,
             EvGetVideo ''v1'', EvBunWrite ''assets/q83vEg.jpeg'',
             EvUpdateVideo
               (demo_video\<lparr>thumbnailURL := Some ''http://localhost:8091/assets/q83vEg.jpeg''\<rparr>)]\<rparr>)"
    by (simp add: demo_defs max_upload_sizes thumbnail_defs extension_of_def)
  have h: "params_videoId (demo_request (Some ''v1'') ''alice'' (demo_form demo_jpeg demo_mp4))
        = Some ''v1''"
      "formData (demo_request (Some ''v1'') ''alice'' (demo_form demo_jpeg demo_mp4))
        = Inr (demo_form demo_jpeg demo_mp4)"
      "demo_form demo_jpeg demo_mp4 ''thumbnail'' = Some (FileEntry demo_jpeg)"
      "file_type demo_jpeg = ''image/jpeg''"
      "params_videoId (demo_request (Some ''v1'') ''alice'' Map.empty) = Some ''v1''"
    by (simp_all add: demo_defs)
  have e: "videoThumbnails demo_world ''v1'' = None"
      "write_err demo_env ''assets/q83vEg.jpeg'' = None"
      "path_join demo_env (assetsRoot demo_cfg) (randomBytes_base64url demo_env @ ''.jpeg'')
        = ''assets/q83vEg.jpeg''"
    by (simp_all add: demo_defs)
  from thumbnail_upload_then_get[OF up h] e up h(4)
  show ?thesis by simp
qed

text \<open>
  The round trip of the specification (upload, then read the same bytes and media type back
  through \<^verbatim>\<open>GET /thumbnails/v\<close>) fails on the sample installation: the upload succeeds
  and the read that follows it finds no thumbnail.
\<close>

theorem uploaded_thumbnail_is_not_served:
  "fst (handlerUploadThumbnail demo_cfg demo_env
      (demo_request (Some ''v1'') ''alice'' (demo_form demo_jpeg demo_mp4)) demo_world)
     = Inr (JSONResponse 200
          (demo_video\<lparr>thumbnailURL := Some ''http://localhost:8091/assets/q83vEg.jpeg''\<rparr>))
   \<and> fst (handlerGetThumbnail demo_cfg (demo_request (Some ''v1'') ''alice'' Map.empty)
        (settle demo_env (snd (handlerUploadThumbnail demo_cfg demo_env
           (demo_request (Some ''v1'') ''alice'' (demo_form demo_jpeg demo_mp4)) demo_world))))
      = Inl (NotFoundError ''Thumbnail not found'')"
  by (simp add: demo_defs max_upload_sizes thumbnail_defs extension_of_def
      handlerGetThumbnail_def settle_def)

section \<open>The record and the stored asset\<close>

text \<open>
  What the video handler does once the file has passed its checks (lines 57 to 78 of
  \<^verbatim>\<open>videos.ts\<close>): either the object store and the database are left as they were and
  no record is persisted, or the write to the object store has succeeded under some key and
  the record is persisted with the URL of that key. The write is awaited, so the record is
  never persisted without its asset.
\<close>

lemma storeVideo_outcomes:
  "(s3 (snd (storeVideo cfg en videoId vd g w)) = s3 w
      \<and> db (snd (storeVideo cfg en videoId vd g w)) = db w
      \<and> (\<forall>vd'. EvUpdateVideo vd' \<notin> set (new_events w (snd (storeVideo cfg en videoId vd g w)))))
   \<or> (\<exists>key content.
         s3 (snd (storeVideo cfg en videoId vd g w)) key = Some (content, file_type g)
         \<and> s3_write_err en key = None
         \<and> db (snd (storeVideo cfg en videoId vd g w))
             = (db w)(video_id vd \<mapsto> vd\<lparr>videoURL := Some (s3CfDistribution cfg @ ''/'' @ key)\<rparr>)
         \<and> (\<forall>vd'. EvUpdateVideo vd' \<in> set (new_events w (snd (storeVideo cfg en videoId vd g w)))
               \<longleftrightarrow> vd' = vd\<lparr>videoURL := Some (s3CfDistribution cfg @ ''/'' @ key)\<rparr>))"
  by (auto simp add: storeVideo_def getVideoAspectRatio_def processVideoForFastStart_def
      S3_write_def Bun_delete_def Bun_write_await_def updateVideo_def respondWithJSON_def
      emit_def Let_def new_events_def
      split: option.splits sum.splits list.splits prod.splits if_splits)

text \<open>
  C1. The thumbnail handler does not wait for its storage write: line 97 of
  \<^verbatim>\<open>thumbnails.ts\<close> calls \<^verbatim>\<open>Bun.write\<close> without \<^verbatim>\<open>await\<close>, and the next two lines set
  the URL and persist the record. The handler's result and the world it leaves do not
  depend on how the write ends. When the write fails, the upload still succeeds with status
  200 and the record is persisted with a \<open>thumbnailURL\<close> that names a file the upload never
  stored: the disk holds at that path what it held before. The ordering that the
  specification states, URL persisted only after the storage write has succeeded, holds of the video
  handler and not of this one.
\<close>

theorem thumbnail_record_updated_whatever_the_write_does:
  assumes "handlerUploadThumbnail cfg en req w = (Inr resp, w')"
    and "params_videoId req = Some v"
    and "formData req = Inr fd" and "fd ''thumbnail'' = Some (FileEntry f)"
    and "write_err en
           (path_join en (assetsRoot cfg)
              (randomBytes_base64url en @ ''.'' @ extension_of (file_type f))) = Some msg"
  shows
    "(\<exists>vd. db w v = Some vd
        \<and> resp = JSONResponse 200
             (vd\<lparr>thumbnailURL := Some (''http://localhost:'' @ port cfg @ ''/assets/''
                    @ randomBytes_base64url en @ ''.'' @ extension_of (file_type f))\<rparr>)
        \<and> db (settle en w') (video_id vd) = Some
             (vd\<lparr>thumbnailURL := Some (''http://localhost:'' @ port cfg @ ''/assets/''
                    @ randomBytes_base64url en @ ''.'' @ extension_of (file_type f))\<rparr>))
     \<and> disk (settle en w')
          (path_join en (assetsRoot cfg)
             (randomBytes_base64url en @ ''.'' @ extension_of (file_type f)))
         = disk w
          (path_join en (assetsRoot cfg)
             (randomBytes_base64url en @ ''.'' @ extension_of (file_type f)))
     \<and> handlerUploadThumbnail cfg (en\<lparr>write_err := we\<rparr>) req w
         = handlerUploadThumbnail cfg en req w"
proof (intro conjI)
  from successful_thumbnail_upload[OF assms(1-4)] obtain vd where
    vd: "db w v = Some vd"
    and resp: "resp = JSONResponse 200
             (vd\<lparr>thumbnailURL := Some (''http://localhost:'' @ port cfg @ ''/assets/''
                    @ randomBytes_base64url en @ ''.'' @ extension_of (file_type f))\<rparr>)"
    and db': "db w' = (db w)(video_id vd \<mapsto>
                vd\<lparr>thumbnailURL := Some (''http://localhost:'' @ port cfg @ ''/assets/''
                       @ randomBytes_base64url en @ ''.'' @ extension_of (file_type f))\<rparr>)"
    and pend: "pending w' = pending w @
                [(path_join en (assetsRoot cfg)
                    (randomBytes_base64url en @ ''.'' @ extension_of (file_type f)),
                  file_bytes f)]"
    and dk: "disk w' = disk w"
    by auto
  show "\<exists>vd. db w v = Some vd
        \<and> resp = JSONResponse 200
             (vd\<lparr>thumbnailURL := Some (''http://localhost:'' @ port cfg @ ''/assets/''
                    @ randomBytes_base64url en @ ''.'' @ extension_of (file_type f))\<rparr>)
        \<and> db (settle en w') (video_id vd) = Some
             (vd\<lparr>thumbnailURL := Some (''http://localhost:'' @ port cfg @ ''/assets/''
                    @ randomBytes_base64url en @ ''.'' @ extension_of (file_type f))\<rparr>)"
    using vd resp by (auto simp add: settle_def db')
  show "disk (settle en w')
          (path_join en (assetsRoot cfg)
             (randomBytes_base64url en @ ''.'' @ extension_of (file_type f)))
         = disk w
          (path_join en (assetsRoot cfg)
             (randomBytes_base64url en @ ''.'' @ extension_of (file_type f)))"
    using settle_writes_failing[OF assms(5), of "pending w'" "disk w"]
    by (simp add: settle_def dk)
  show "handlerUploadThumbnail cfg (en\<lparr>write_err := we\<rparr>) req w
         = handlerUploadThumbnail cfg en req w"
    by (simp add: thumbnail_defs split: option.splits sum.splits form_entry.splits)
qed

theorem thumbnail_record_updated_whatever_the_write_does_witness:
  "handlerUploadThumbnail demo_cfg (demo_env\<lparr>write_err := (\<lambda>p. Some ''ENOSPC'')\<rparr>)
      (demo_request (Some ''v1'') ''alice'' (demo_form demo_jpeg demo_mp4)) demo_world
     = (Inr (JSONResponse 200
          (demo_video\<lparr>thumbnailURL := Some ''http://localhost:8091/assets/q83vEg.jpeg''\<rparr>)),
        demo_world
          \<lparr>db := [''v1'' \<mapsto>
              demo_video\<lparr>thumbnailURL := Some ''http://localhost:8091/assets/q83vEg.jpeg''\<rparr>],
           pending := [(''assets/q83vEg.jpeg'', file_bytes demo_jpeg)],
           trace := [EvGetBearerToken, EvValidateJWT, EvConsoleLog, EvFormData, EvArrayBuffer,
             EvGetVideo ''v1'', EvBunWrite ''assets/q83vEg.jpeg'',
             EvUpdateVideo
               (demo_video\<lparr>thumbnailURL := Some ''http://localhost:8091/assets/q83vEg.jpeg''\<rparr>)]\<rparr>)
   \<and> write_err (demo_env\<lparr>write_err := (\<lambda>p. Some ''ENOSPC'')\<rparr>) ''assets/q83vEg.jpeg''
      = Some ''ENOSPC''
   \<and> disk (settle (demo_env\<lparr>write_err := (\<lambda>p. Some ''ENOSPC'')\<rparr>)
        (snd (handlerUploadThumbnail demo_cfg (demo_env\<lparr>write_err := (\<lambda>p. Some ''ENOSPC'')\<rparr>)
           (demo_request (Some ''v1'') ''alice'' (demo_form demo_jpeg demo_mp4)) demo_world)))
        ''assets/q83vEg.jpeg''
      = None
   \<and> db (settle (demo_env\<lparr>write_err := (\<lambda>p. Some ''ENOSPC'')\<rparr>)
        (snd (handlerUploadThumbnail demo_cfg (demo_env\<lparr>write_err := (\<lambda>p. Some ''ENOSPC'')\<rparr>)
           (demo_request (Some ''v1'') ''alice'' (demo_form demo_jpeg demo_mp4)) demo_world)))
        ''v1''
      = Some (demo_video\<lparr>thumbnailURL := Some ''http://localhost:8091/assets/q83vEg.jpeg''\<rparr>)"
proof -
  have up: "handlerUploadThumbnail demo_cfg (demo_env\<lparr>write_err := (\<lambda>p. Some ''ENOSPC'')\<rparr>)
      (demo_request (Some ''v1'') ''alice'' (demo_form demo_jpeg demo_mp4)) demo_world
     = (Inr (JSONResponse 200
          (demo_video\<lparr>thumbnailURL := Some ''http://localhost:8091/assets/q83vEg.jpeg''\<rparr>)),
        demo_world
          \<lparr>db := [''v1'' \<mapsto>
              demo_video\<lparr>thumbnailURL := Some ''http://localhost:8091/assets/q83vEg.jpeg''\<rparr>],
           pending := [(''assets/q83vEg.jpeg'', file_bytes demo_jpeg)],
           trace := [EvGetBearerToken, EvValidateJWT, EvConsoleLog, EvFormData, EvArrayBuffer,
             EvGetVideo ''v1'', EvBunWrite ''assets/q83vEg.jpeg'',
             EvUpdateVideo
               (demo_video\<lparr>thumbnailURL := Some ''http://localhost:8091/assets/q83vEg.jpeg''\<rparr>)]\<rparr>)"
    by (simp add: demo_defs max_upload_sizes thumbnail_defs extension_of_def)
  have h: "params_videoId (demo_request (Some ''v1'') ''alice'' (demo_form demo_jpeg demo_mp4))
        = Some ''v1''"
      "formData (demo_request (Some ''v1'') ''alice'' (demo_form demo_jpeg demo_mp4))
        = Inr (demo_form demo_jpeg demo_mp4)"
      "demo_form demo_jpeg demo_mp4 ''thumbnail'' = Some (FileEntry demo_jpeg)"
    by (simp_all add: demo_defs)
  have p: "path_join (demo_env\<lparr>write_err := (\<lambda>p. Some ''ENOSPC'')\<rparr>) (assetsRoot demo_cfg)
             (randomBytes_base64url (demo_env\<lparr>write_err := (\<lambda>p. Some ''ENOSPC'')\<rparr>)
                @ ''.'' @ extension_of (file_type demo_jpeg))
        = ''assets/q83vEg.jpeg''"
    by (simp add: demo_defs extension_of_def)
  have e: "write_err (demo_env\<lparr>write_err := (\<lambda>p. Some ''ENOSPC'')\<rparr>)
           (path_join (demo_env\<lparr>write_err := (\<lambda>p. Some ''ENOSPC'')\<rparr>) (assetsRoot demo_cfg)
             (randomBytes_base64url (demo_env\<lparr>write_err := (\<lambda>p. Some ''ENOSPC'')\<rparr>)
                @ ''.'' @ extension_of (file_type demo_jpeg)))
        = Some ''ENOSPC''"
    by simp
  have d: "disk demo_world ''assets/q83vEg.jpeg'' = None" "db demo_world ''v1'' = Some demo_video"
      "video_id demo_video = ''v1''"
    by (simp_all add: demo_defs)
  from thumbnail_record_updated_whatever_the_write_does[OF up h e, where we = "\<lambda>p. None"]
  show ?thesis unfolding p using up d by auto
qed

section \<open>Temporary files\<close>

text \<open>
  C8. A video upload that succeeds has written the object store, and it has deleted the
  processed file \<open>path.processed\<close>; the original temporary file at \<open>path\<close>, which the
  handler wrote itself on line 60 of \<^verbatim>\<open>videos.ts\<close>, is still on the disk with the
  uploaded bytes when the handler returns: only \<^verbatim>\<open>file.delete()\<close> of the processed file
  is called.
\<close>

theorem successful_video_upload_leaves_original_file:
  assumes "handlerUploadVideo cfg en req w = (Inr resp, w')"
    and "params_videoId req = Some videoId"
    and "formData req = Inr fd" and "fd ''video'' = Some (FileEntry g)"
  shows
    "disk w' (path_join en (assetsRoot cfg) (videoId @ ''.mp4'')) = Some (file_bytes g)
     \<and> disk w' (path_join en (assetsRoot cfg) (videoId @ ''.mp4'') @ ''.processed'') = None
     \<and> (\<exists>category content vd.
           s3 w' (category @ ''/'' @ randomBytes_hex en @ ''.mp4'') = Some (content, ''video/mp4'')
           \<and> resp = JSONResponse 200
               (vd\<lparr>videoURL := Some (s3CfDistribution cfg @ ''/'' @ category @ ''/''
                      @ randomBytes_hex en @ ''.mp4'')\<rparr>))"
proof -
  from successful_video_upload[OF assms] obtain vd where
    t: "file_type g = ''video/mp4''"
    and st: "storeVideo cfg en videoId vd g
                (w\<lparr>trace := trace w @
                    [EvGetBearerToken, EvValidateJWT, EvGetVideo videoId, EvFormData]\<rparr>)
               = (Inr resp, w')"
    by auto
  from storeVideo_success[OF st t] show ?thesis by blast
qed

theorem successful_video_upload_leaves_original_file_witness:
  "handlerUploadVideo demo_cfg demo_env
      (demo_request (Some ''v1'') ''alice'' (demo_form demo_jpeg demo_mp4)) demo_world
     = (Inr (JSONResponse 200
          (demo_video\<lparr>videoURL := Some ''https://cdn.example/landscape/c0ffee.mp4''\<rparr>)),
        demo_world
          \<lparr>db := [''v1'' \<mapsto>
              demo_video\<lparr>videoURL := Some ''https://cdn.example/landscape/c0ffee.mp4''\<rparr>],
           disk := [''assets/v1.mp4'' \<mapsto> file_bytes demo_mp4],
           s3 := [''landscape/c0ffee.mp4'' \<mapsto> (file_bytes demo_mp4, ''video/mp4'')],
           trace := [EvGetBearerToken, EvValidateJWT, EvGetVideo ''v1'', EvFormData,
             EvArrayBuffer, EvBunWrite ''assets/v1.mp4'', EvSpawn ''ffprobe'', EvSpawn ''ffmpeg'',
             EvS3Write ''landscape/c0ffee.mp4'',
             EvUpdateVideo
               (demo_video\<lparr>videoURL := Some ''https://cdn.example/landscape/c0ffee.mp4''\<rparr>),
             EvDelete ''assets/v1.mp4.processed'']\<rparr>)
   \<and> disk (snd (handlerUploadVideo demo_cfg demo_env
        (demo_request (Some ''v1'') ''alice'' (demo_form demo_jpeg demo_mp4)) demo_world))
        ''assets/v1.mp4''
      = Some (file_bytes demo_mp4)
   \<and> disk (snd (handlerUploadVideo demo_cfg demo_env
        (demo_request (Some ''v1'') ''alice'' (demo_form demo_jpeg demo_mp4)) demo_world))
        ''assets/v1.mp4.processed''
      = None"
proof -
  have run: "handlerUploadVideo demo_cfg demo_env
      (demo_request (Some ''v1'') ''alice'' (demo_form demo_jpeg demo_mp4)) demo_world
     = (Inr (JSONResponse 200
          (demo_video\<lparr>videoURL := Some ''https://cdn.example/landscape/c0ffee.mp4''\<rparr>)),
        demo_world
          \<lparr>db := [''v1'' \<mapsto>
              demo_video\<lparr>videoURL := Some ''https://cdn.example/landscape/c0ffee.mp4''\<rparr>],
           disk := [''assets/v1.mp4'' \<mapsto> file_bytes demo_mp4],
           s3 := [''landscape/c0ffee.mp4'' \<mapsto> (file_bytes demo_mp4, ''video/mp4'')],
           trace := [EvGetBearerToken, EvValidateJWT, EvGetVideo ''v1'', EvFormData,
             EvArrayBuffer, EvBunWrite ''assets/v1.mp4'', EvSpawn ''ffprobe'', EvSpawn ''ffmpeg'',
             EvS3Write ''landscape/c0ffee.mp4'',
             EvUpdateVideo
               (demo_video\<lparr>videoURL := Some ''https://cdn.example/landscape/c0ffee.mp4''\<rparr>),
             EvDelete ''assets/v1.mp4.processed'']\<rparr>)"
    by (simp add: demo_defs max_upload_sizes video_defs extension_of_def demo_aspect fun_eq_iff)
  have h: "params_videoId (demo_request (Some ''v1'') ''alice'' (demo_form demo_jpeg demo_mp4))
        = Some ''v1''"
      "formData (demo_request (Some ''v1'') ''alice'' (demo_form demo_jpeg demo_mp4))
        = Inr (demo_form demo_jpeg demo_mp4)"
      "demo_form demo_jpeg demo_mp4 ''video'' = Some (FileEntry demo_mp4)"
    by (simp_all add: demo_defs)
  have p: "path_join demo_env (assetsRoot demo_cfg) (''v1'' @ ''.mp4'') = ''assets/v1.mp4''"
    by (simp add: demo_defs)
  from successful_video_upload_leaves_original_file[OF run h] run
  show ?thesis unfolding p by simp
qed

section \<open>The aspect classification\<close>

text \<open>
  C5. For the width and height of the first stream, as integers that \<^verbatim>\<open>ffprobe\<close> can
  print (below \<open>2\<^sup>3\<^sup>1\<close> in magnitude), the classification computed in floating point is
  the exact integer test: \<open>landscape\<close> if the width is the floor of \<open>16 \<cdot> height / 9\<close>,
  else \<open>portrait\<close> if the height is the floor of \<open>16 \<cdot> width / 9\<close>, else \<open>other\<close>. On
  integers \<open>div\<close> is that floor. That classification is what \<open>getVideoAspectRatio\<close>
  returns, with the start of \<^verbatim>\<open>ffprobe\<close> as its only event, whenever the program exits
  with status 0 and its output lists at least one stream: the width and height are those of
  the first stream, whatever streams follow. In particular 1920 by 1080 is \<open>landscape\<close>,
  1080 by 1920 is \<open>portrait\<close> and 1000 by 1000 is \<open>other\<close>.
\<close>

theorem aspect_classification:
  assumes "\<bar>w\<bar> < 2 ^ 31" and "\<bar>h\<bar> < 2 ^ 31"
  shows "aspect (Some w) (Some h) =
           (if w = (16 * h) div 9 then ''landscape''
            else if h = (16 * w) div 9 then ''portrait''
            else ''other'')
         \<and> (16 * h) div 9 = \<lfloor>(16 * of_int h :: rat) / 9\<rfloor>
         \<and> (16 * w) div 9 = \<lfloor>(16 * of_int w :: rat) / 9\<rfloor>
         \<and> (probe_exited (ffprobe en (disk w0) filePath) = 0
              \<and> probe_stdout (ffprobe en (disk w0) filePath) = Inr (Some (st # rest))
              \<and> width st = Some w \<and> height st = Some h \<longrightarrow>
            getVideoAspectRatio en filePath w0 =
              (Inr (if w = (16 * h) div 9 then ''landscape''
                    else if h = (16 * w) div 9 then ''portrait''
                    else ''other''),
               w0\<lparr>trace := trace w0 @ [EvSpawn ''ffprobe'']\<rparr>))"
proof -
  have fl: "\<lfloor>16 * (of_int d :: rat) / 9\<rfloor> = (16 * d) div 9" for d :: int
  proof -
    have "16 * (of_int d :: rat) / 9 = of_int (16 * d) / of_int 9" by simp
    then show ?thesis by (simp only: floor_divide_of_int_eq)
  qed
  note a = aspect_of_ints[OF assms]
  have link: "getVideoAspectRatio en filePath w0 =
              (Inr (if w = (16 * h) div 9 then ''landscape''
                    else if h = (16 * w) div 9 then ''portrait''
                    else ''other''),
               w0\<lparr>trace := trace w0 @ [EvSpawn ''ffprobe'']\<rparr>)"
    if "probe_exited (ffprobe en (disk w0) filePath) = 0
              \<and> probe_stdout (ffprobe en (disk w0) filePath) = Inr (Some (st # rest))
              \<and> width st = Some w \<and> height st = Some h"
  proof -
    have "getVideoAspectRatio en filePath w0 =
        (Inr (aspect (Some w) (Some h)), w0\<lparr>trace := trace w0 @ [EvSpawn ''ffprobe'']\<rparr>)"
      using that by (simp add: getVideoAspectRatio_def emit_def Let_def)
    then show ?thesis by (simp only: a)
  qed
  show ?thesis using a fl link by simp
qed

theorem aspect_classification_witness:
  "\<bar>1920 :: int\<bar> < 2 ^ 31 \<and> \<bar>1080 :: int\<bar> < 2 ^ 31 \<and> \<bar>1000 :: int\<bar> < 2 ^ 31
   \<and> aspect (Some 1920) (Some 1080) = ''landscape''
   \<and> aspect (Some 1080) (Some 1920) = ''portrait''
   \<and> aspect (Some 1000) (Some 1000) = ''other''
   \<and> getVideoAspectRatio (demo_probe 1920 1080) ''assets/v1.mp4'' demo_world
       = (Inr ''landscape'', demo_world\<lparr>trace := trace demo_world @ [EvSpawn ''ffprobe'']\<rparr>)
   \<and> getVideoAspectRatio (demo_probe 1080 1920) ''assets/v1.mp4'' demo_world
       = (Inr ''portrait'', demo_world\<lparr>trace := trace demo_world @ [EvSpawn ''ffprobe'']\<rparr>)
   \<and> getVideoAspectRatio (demo_probe 1000 1000) ''assets/v1.mp4'' demo_world
       = (Inr ''other'', demo_world\<lparr>trace := trace demo_world @ [EvSpawn ''ffprobe'']\<rparr>)"
proof -
  have b: "\<bar>1920 :: int\<bar> < 2 ^ 31" "\<bar>1080 :: int\<bar> < 2 ^ 31" "\<bar>1000 :: int\<bar> < 2 ^ 31"
    by simp_all
  have p: "probe_exited (ffprobe (demo_probe x y) (disk demo_world) ''assets/v1.mp4'') = 0
      \<and> probe_stdout (ffprobe (demo_probe x y) (disk demo_world) ''assets/v1.mp4'')
          = Inr (Some (\<lparr>width = Some x, height = Some y\<rparr>
                       # [\<lparr>width = Some 640, height = Some 360\<rparr>]))
      \<and> width \<lparr>width = Some x, height = Some y\<rparr> = Some x
      \<and> height \<lparr>width = Some x, height = Some y\<rparr> = Some y" for x y
    by (simp add: demo_probe_def)
  note t1 = aspect_classification[OF b(1) b(2),
      where en = "demo_probe 1920 1080" and ?w0.0 = demo_world and filePath = "''assets/v1.mp4''"
        and st = "\<lparr>width = Some 1920, height = Some 1080\<rparr>"
        and rest = "[\<lparr>width = Some 640, height = Some 360\<rparr>]"]
  note t2 = aspect_classification[OF b(2) b(1),
      where en = "demo_probe 1080 1920" and ?w0.0 = demo_world and filePath = "''assets/v1.mp4''"
        and st = "\<lparr>width = Some 1080, height = Some 1920\<rparr>"
        and rest = "[\<lparr>width = Some 640, height = Some 360\<rparr>]"]
  note t3 = aspect_classification[OF b(3) b(3),
      where en = "demo_probe 1000 1000" and ?w0.0 = demo_world and filePath = "''assets/v1.mp4''"
        and st = "\<lparr>width = Some 1000, height = Some 1000\<rparr>"
        and rest = "[\<lparr>width = Some 640, height = Some 360\<rparr>]"]
  have "aspect (Some 1920) (Some 1080) = ''landscape''"
    using t1[THEN conjunct1] by simp
  moreover have "aspect (Some 1080) (Some 1920) = ''portrait''"
    using t2[THEN conjunct1] by simp
  moreover have "aspect (Some 1000) (Some 1000) = ''other''"
    using t3[THEN conjunct1] by simp
  moreover have "getVideoAspectRatio (demo_probe 1920 1080) ''assets/v1.mp4'' demo_world
       = (Inr ''landscape'', demo_world\<lparr>trace := trace demo_world @ [EvSpawn ''ffprobe'']\<rparr>)"
    using t1[THEN conjunct2, THEN conjunct2, THEN conjunct2, rule_format, OF p[of 1920 1080]]
    by simp
  moreover have "getVideoAspectRatio (demo_probe 1080 1920) ''assets/v1.mp4'' demo_world
       = (Inr ''portrait'', demo_world\<lparr>trace := trace demo_world @ [EvSpawn ''ffprobe'']\<rparr>)"
    using t2[THEN conjunct2, THEN conjunct2, THEN conjunct2, rule_format, OF p[of 1080 1920]]
    by simp
  moreover have "getVideoAspectRatio (demo_probe 1000 1000) ''assets/v1.mp4'' demo_world
       = (Inr ''other'', demo_world\<lparr>trace := trace demo_world @ [EvSpawn ''ffprobe'']\<rparr>)"
    using t3[THEN conjunct2, THEN conjunct2, THEN conjunct2, rule_format, OF p[of 1000 1000]]
    by simp
  ultimately show ?thesis using b by simp
qed

end
